theory Spec2Isabelle
  imports Main
begin

section \<open>lib/commands/toolcontext.c: construction and teardown of the command context\<close>

text \<open>
  The file under verification builds a \<open>struct cmd_context\<close> in a fixed sequence of
  fallible steps and tears it down again. Almost everything it calls lives in other
  compilation units (configuration tree, device cache, filters, format handlers, libc).
  The embedding makes those calls explicit:
  \<^item> what an external call returns is read from a \<open>world\<close> record;
  \<^item> every function returns, next to its C result, the trace of the external calls and
    log messages it made, in program order (a fallible call with its outcome); lookups
    that change nothing (\<open>getenv\<close>, the accessors of the configuration tree) and writes to
    the context itself are not events;
  \<^item> a C function returning \<open>int\<close> used as a truth value returns \<open>bool\<close>, and the
    \<open>cmd\<close> it mutates through the pointer is passed in and returned;
  \<^item> the one file-level variable of the source, \<open>static FILE *_log\<close>, is passed in and
    returned by the functions that assign it, and passed to the one that reads it.
  Names follow the source; a leading underscore, which Isabelle does not allow, is dropped.
\<close>

subsection \<open>Configuration tree (external: config.h)\<close>

datatype config_value = CFG_STRING string | CFG_FLOAT int | CFG_INT int

text \<open>A node path maps to the node's list of values (\<open>cn->v\<close> and its \<open>next\<close> chain).\<close>

type_synonym config_node = "config_value list"

record config_tree =
  root :: "string \<Rightarrow> config_node option"
  timestamp :: int

text \<open>
  Modelled from the spec: \<open>create_config_tree\<close> (config.c is not among the sources) yields
  "an empty in-memory tree".
\<close>

definition empty_config_tree :: config_tree where
  "empty_config_tree = \<lparr>root = (\<lambda>path. None), timestamp = 0\<rparr>"

text \<open>
  Modelled from the spec: the configuration tree is a "hierarchical key/value lookup with
  typed accessors and defaults" (config.c is not among the sources). The separator argument
  \<open>'/'\<close> of every call is fixed and left out.
\<close>

definition find_config_node :: "(string \<Rightarrow> config_node option) \<Rightarrow> string \<Rightarrow> config_node option" where
  "find_config_node rt path = rt path"

definition find_config_int :: "(string \<Rightarrow> config_node option) \<Rightarrow> string \<Rightarrow> int \<Rightarrow> int" where
  "find_config_int rt path fail =
     (case find_config_node rt path of
        Some (CFG_INT i # vs) \<Rightarrow> i
      | _ \<Rightarrow> fail)"

definition find_config_str ::
  "(string \<Rightarrow> config_node option) \<Rightarrow> string \<Rightarrow> string option \<Rightarrow> string option" where
  "find_config_str rt path fail =
     (case find_config_node rt path of
        Some (CFG_STRING str # vs) \<Rightarrow> Some str
      | _ \<Rightarrow> fail)"

text \<open>The call sites that pass a non-null default always get a string back.\<close>

definition find_config_str_dflt :: "(string \<Rightarrow> config_node option) \<Rightarrow> string \<Rightarrow> string \<Rightarrow> string" where
  "find_config_str_dflt rt path dflt =
     (case find_config_str rt path (Some dflt) of Some str \<Rightarrow> str | None \<Rightarrow> dflt)"

text \<open>
  Modelled from the spec: the timestamp of a tree is "the configuration source's
  modification time" (config.c is not among the sources).
\<close>

definition config_file_timestamp :: "config_tree \<Rightarrow> int" where
  "config_file_timestamp t = timestamp t"

subsection \<open>Filters and format handlers (external objects held by the context)\<close>

datatype dev_filter =
    Type_filter string "config_node option"
  | Regex_filter "config_value list"
  | Composite_filter "dev_filter list"
  | Persistent_filter dev_filter string

type_synonym lib = nat

record format_type =
  name :: string
  alias_name :: "string option"
  library :: "lib option"

subsection \<open>The command context (toolcontext.h)\<close>

text \<open>
  \<open>fmt\<close> and \<open>fmt_backup\<close> are pointers to elements of \<open>cmd->formats\<close>; they are modelled
  as positions in that list, \<open>None\<close> being the null pointer.
\<close>

record config_info =
  syslog :: int
  debug :: int
  verbose :: int
  msg_prefix :: string
  cmd_name :: int
  test :: int
  umask :: int
  activation :: int
  suffix :: int
  unit_factor :: nat
  unit_type :: char
  fmt :: "nat option"

record cmd_context =
  args :: "string list"
  sys_dir :: string
  dev_dir :: string
  proc_dir :: string
  cf :: "config_tree option"
  default_settings :: config_info
  current_settings :: config_info
  filter_ptr :: "dev_filter option"
  dump_filter :: bool
  mem :: bool
  formats :: "format_type list"
  fmt_backup :: "nat option"

text \<open>\<open>memset(cmd, 0, sizeof(*cmd))\<close>\<close>

definition zero_settings :: config_info where
  "zero_settings = \<lparr>syslog = 0, debug = 0, verbose = 0, msg_prefix = [], cmd_name = 0,
     test = 0, umask = 0, activation = 0, suffix = 0, unit_factor = 0,
     unit_type = CHR 0x00, fmt = None\<rparr>"

definition zero_cmd :: cmd_context where
  "zero_cmd = \<lparr>args = [], sys_dir = [], dev_dir = [], proc_dir = [], cf = None,
     default_settings = zero_settings, current_settings = zero_settings,
     filter_ptr = None, dump_filter = False, mem = False, formats = [],
     fmt_backup = None\<rparr>"

text \<open>\<open>cmd->cf->root\<close>\<close>

definition cf_root :: "cmd_context \<Rightarrow> string \<Rightarrow> config_node option" where
  "cf_root cmd = (case cf cmd of Some t \<Rightarrow> root t | None \<Rightarrow> (\<lambda>path. None))"

subsection \<open>Build parameters and the outside world\<close>

text \<open>
  \<open>defaults.h\<close> is not among the sources and the three preprocessor switches are chosen
  when the tool is built, so all of them are parameters.
\<close>

record build =
  LVM1_INTERNAL :: bool
  HAVE_LIBDL :: bool
  DEVMAPPER_SUPPORT :: bool
  DEFAULT_SYS_DIR :: string
  DEFAULT_DEV_DIR :: string
  DEFAULT_PROC_DIR :: string
  DEFAULT_FORMAT :: string
  DEFAULT_UNITS :: string
  DEFAULT_MSG_PREFIX :: string
  DEFAULT_LOG_FACILITY :: int
  DEFAULT_SYSLOG :: int
  DEFAULT_LOGLEVEL :: int
  DEFAULT_VERBOSE :: int
  DEFAULT_INDENT :: int
  DEFAULT_CMD_NAME :: int
  DEFAULT_OVERWRITE :: int
  DEFAULT_UMASK :: int
  DEFAULT_ACTIVATION :: int
  DEFAULT_SUFFIX :: int

text \<open>\<open>PATH_MAX\<close> of \<open><limits.h>\<close> on Linux; every path buffer of the source has this size.\<close>

definition PATH_MAX :: nat where
  "PATH_MAX = 4096"

datatype stat_result = Stat_ok int | Stat_ENOENT | Stat_error

text \<open>
  What each external call returns. A fallible constructor returns \<open>bool\<close> (the object it
  builds is determined by its arguments) or an \<open>option\<close>; \<open>stat\<close> returns the
  modification time, or which way it failed. \<open>dlsym\<close> yields the factory of a loaded
  library, itself given by what it returns when called.
\<close>

record world =
  getenv :: "string \<Rightarrow> string option"
  setlocale :: bool
  dbg_malloc :: bool
  create_dir :: "string \<Rightarrow> bool"
  create_config_tree :: bool
  stat :: "string \<Rightarrow> stat_result"
  read_config_file :: "string \<Rightarrow> config_tree option"
  fopen :: "string \<Rightarrow> string \<Rightarrow> bool"
  time_now :: int
  umask_prev :: int
  units_to_bytes :: "string \<Rightarrow> nat \<times> char"
  dev_cache_init :: bool
  dev_cache_add_dir :: "string \<Rightarrow> bool"
  lvm_type_filter_create :: "string \<Rightarrow> config_node option \<Rightarrow> bool"
  regex_filter_create :: "config_value list \<Rightarrow> bool"
  composite_filter_create :: "dev_filter list \<Rightarrow> bool"
  persistent_filter_create :: "dev_filter \<Rightarrow> string \<Rightarrow> bool"
  persistent_filter_load :: "dev_filter \<Rightarrow> bool"
  pool_create :: "nat \<Rightarrow> bool"
  init_lvm1_format :: "format_type option"
  load_shared_library :: "string \<Rightarrow> lib option"
  dlsym :: "lib \<Rightarrow> string \<Rightarrow> format_type option option"
  create_text_format :: "format_type option"

subsection \<open>Events\<close>

datatype log_arg = S string | I int

datatype event =
    Log_error string "log_arg list"
  | Log_verbose string "log_arg list"
  | Log_debug string "log_arg list"
  | Log_sys_error string string
  | Stack
  | Setlocale bool
  | Init_syslog int
  | Fin_syslog
  | Init_debug int
  | Init_verbose int
  | Init_indent int
  | Init_msg_prefix string
  | Init_cmd_name int
  | Init_log
  | Fin_log
  | Dm_log_init
  | Dbg_malloc bool
  | Dbg_free
  | Dump_memory
  | Create_dir string bool
  | Create_config_tree bool
  | Destroy_config_tree
  | Stat string stat_result
  | Read_config_file string bool
  | Fopen string string bool
  | Fclose
  | Time
  | Umask int
  | Dm_set_dev_dir string
  | Set_activation int
  | Units_to_bytes string
  | Dev_cache_init bool
  | Dev_cache_add_dir string bool
  | Dev_cache_exit
  | Lvm_type_filter_create bool
  | Regex_filter_create bool
  | Composite_filter_create bool
  | Persistent_filter_create string bool
  | Persistent_filter_load bool
  | Persistent_filter_dump "dev_filter option"
  | Filter_destroy "dev_filter option"
  | Pool_create nat bool
  | Pool_destroy
  | Label_init
  | Label_exit
  | Cache_destroy
  | Init_lvm1_format bool
  | Load_shared_library string bool
  | Dlsym lib bool
  | Dlclose lib
  | Init_format_fn lib bool
  | Create_text_format bool
  | Format_destroy string

text \<open>
  Modelled from the spec: a path "does not fit the fixed-size path buffer"
  (lvm-string.c is not among the sources). The formatted text is passed in; the result is
  whether it fitted and what the buffer holds afterwards.
\<close>

definition lvm_snprintf :: "nat \<Rightarrow> string \<Rightarrow> bool \<times> string" where
  "lvm_snprintf bufsize text = (length text < bufsize, take (bufsize - 1) text)"

subsection \<open>\<open>_get_env_vars\<close>\<close>

definition get_env_vars :: "world \<Rightarrow> cmd_context \<Rightarrow> bool \<times> cmd_context \<times> event list" where
  "get_env_vars w cmd =
     (case getenv w ''LVM_SYSTEM_DIR'' of
        Some e \<Rightarrow>
          (case lvm_snprintf PATH_MAX e of
             (fits, buf) \<Rightarrow>
               if \<not> fits
               then (False, cmd\<lparr>sys_dir := buf\<rparr>,
                     [Log_error ''LVM_SYSTEM_DIR environment variable is too long.'' []])
               else (True, cmd\<lparr>sys_dir := buf\<rparr>, []))
      | None \<Rightarrow> (True, cmd, []))"

subsection \<open>\<open>_init_logging\<close>\<close>

text \<open>
  The function returns nothing in C. \<open>glob_log\<close> is \<open>_log\<close> on entry (the name of the open
  log file, or null); the second component of the result is \<open>_log\<close> on return.
\<close>

definition init_logging ::
  "build \<Rightarrow> world \<Rightarrow> cmd_context \<Rightarrow> string option \<Rightarrow> cmd_context \<times> string option \<times> event list" where
  "init_logging b w cmd glob_log =
     (let open_mode = ''a'';
          v_syslog = find_config_int (cf_root cmd) ''log/syslog'' (DEFAULT_SYSLOG b);
          cmd = cmd\<lparr>default_settings := (default_settings cmd)\<lparr>syslog := v_syslog\<rparr>\<rparr>;
          tr = (if v_syslog \<noteq> 1 then [Fin_syslog] else []);
          tr = tr @ (if v_syslog > 1 then [Init_syslog v_syslog] else []);
          v_debug = find_config_int (cf_root cmd) ''log/level'' (DEFAULT_LOGLEVEL b);
          cmd = cmd\<lparr>default_settings := (default_settings cmd)\<lparr>debug := v_debug\<rparr>\<rparr>;
          tr = tr @ [Init_debug v_debug];
          v_verbose = find_config_int (cf_root cmd) ''log/verbose'' (DEFAULT_VERBOSE b);
          cmd = cmd\<lparr>default_settings := (default_settings cmd)\<lparr>verbose := v_verbose\<rparr>\<rparr>;
          tr = tr @ [Init_verbose v_verbose];
          tr = tr @ [Init_indent (find_config_int (cf_root cmd) ''log/indent'' (DEFAULT_INDENT b))];
          v_prefix = find_config_str_dflt (cf_root cmd) ''log/prefix'' (DEFAULT_MSG_PREFIX b);
          cmd = cmd\<lparr>default_settings := (default_settings cmd)\<lparr>msg_prefix := v_prefix\<rparr>\<rparr>;
          tr = tr @ [Init_msg_prefix v_prefix];
          v_cmd_name = find_config_int (cf_root cmd) ''log/command_names'' (DEFAULT_CMD_NAME b);
          cmd = cmd\<lparr>default_settings := (default_settings cmd)\<lparr>cmd_name := v_cmd_name\<rparr>\<rparr>;
          tr = tr @ [Init_cmd_name v_cmd_name];
          cmd = cmd\<lparr>default_settings := (default_settings cmd)
                  \<lparr>test := find_config_int (cf_root cmd) ''global/test'' 0\<rparr>\<rparr>;
          open_mode = (if find_config_int (cf_root cmd) ''log/overwrite'' (DEFAULT_OVERWRITE b) \<noteq> 0
                       then ''w'' else open_mode);
          (glob_log, tr) =
             (case find_config_str (cf_root cmd) ''log/file'' None of
                Some log_file \<Rightarrow>
                  if \<not> fopen w log_file open_mode
                  then (None, tr @ [Fopen log_file open_mode False,
                                    Log_error ''Couldn't open log file %s'' [S log_file]])
                  else (Some log_file, tr @ [Fopen log_file open_mode True, Init_log])
              | None \<Rightarrow> (glob_log, tr));
          tr = tr @ [Time];
          tr = tr @ [Log_verbose ''Logging initialised at %s'' [I (time_now w)]];
          tr = tr @ (if DEVMAPPER_SUPPORT b then [Dm_log_init] else [])
      in (cmd, glob_log, tr))"

subsection \<open>\<open>_process_config\<close>\<close>

text \<open>\<open>(mode_t) x\<close>: conversion of an \<open>int\<close> to the unsigned 32-bit \<open>mode_t\<close>.\<close>

definition to_mode_t :: "int \<Rightarrow> int" where
  "to_mode_t x = x mod 2 ^ 32"

definition process_config :: "build \<Rightarrow> world \<Rightarrow> cmd_context \<Rightarrow> bool \<times> cmd_context \<times> event list" where
  "process_config b w cmd =
     (let v_umask = find_config_int (cf_root cmd) ''global/umask'' (DEFAULT_UMASK b);
          cmd = cmd\<lparr>default_settings := (default_settings cmd)\<lparr>umask := v_umask\<rparr>\<rparr>;
          tr = [Umask (to_mode_t v_umask)];
          tr = tr @ (if to_mode_t (umask_prev w) \<noteq> to_mode_t v_umask
                     then [Log_verbose ''Set umask to %04o'' [I v_umask]] else [])
      in case lvm_snprintf PATH_MAX
                (find_config_str_dflt (cf_root cmd) ''devices/dir'' (DEFAULT_DEV_DIR b) @ ''/'') of
           (fits_dev, buf_dev) \<Rightarrow>
             let cmd = cmd\<lparr>dev_dir := buf_dev\<rparr> in
             if \<not> fits_dev
             then (False, cmd,
                   tr @ [Log_error ''Device directory given in config file too long'' []])
             else
               let tr = tr @ (if DEVMAPPER_SUPPORT b then [Dm_set_dev_dir (dev_dir cmd)] else [])
               in case lvm_snprintf PATH_MAX
                         (find_config_str_dflt (cf_root cmd) ''global/proc'' (DEFAULT_PROC_DIR b)) of
                    (fits_proc, buf_proc) \<Rightarrow>
                      let cmd = cmd\<lparr>proc_dir := buf_proc\<rparr> in
                      if \<not> fits_proc
                      then (False, cmd,
                            tr @ [Log_error ''Device directory given in config file too long'' []])
                      else
                        let v_act = find_config_int (cf_root cmd) ''global/activation''
                                      (DEFAULT_ACTIVATION b);
                            cmd = cmd\<lparr>default_settings :=
                                    (default_settings cmd)\<lparr>activation := v_act\<rparr>\<rparr>;
                            tr = tr @ [Set_activation v_act];
                            cmd = cmd\<lparr>default_settings := (default_settings cmd)
                                    \<lparr>suffix := find_config_int (cf_root cmd) ''global/suffix''
                                                 (DEFAULT_SUFFIX b)\<rparr>\<rparr>;
                            v_units = find_config_str_dflt (cf_root cmd) ''global/units''
                                        (DEFAULT_UNITS b);
                            tr = tr @ [Units_to_bytes v_units]
                        in case units_to_bytes w v_units of
                             (factor, utype) \<Rightarrow>
                               let cmd = cmd\<lparr>default_settings := (default_settings cmd)
                                           \<lparr>unit_factor := factor, unit_type := utype\<rparr>\<rparr>
                               in if factor = 0
                                  then (False, cmd, tr @ [Log_error ''Invalid units specification'' []])
                                  else (True, cmd, tr))"

subsection \<open>\<open>_init_config\<close>: find and read the config file\<close>

definition init_config :: "world \<Rightarrow> cmd_context \<Rightarrow> bool \<times> cmd_context \<times> event list" where
  "init_config w cmd =
     (if \<not> create_config_tree w
      then (False, cmd\<lparr>cf := None\<rparr>, [Create_config_tree False, Stack])
      else
        let cmd = cmd\<lparr>cf := Some empty_config_tree\<rparr>;
            tr = [Create_config_tree True]
        in if sys_dir cmd = [] then (True, cmd, tr)
           else
             case lvm_snprintf PATH_MAX (sys_dir cmd @ ''/lvm.conf'') of
               (fits, config_file) \<Rightarrow>
                 if \<not> fits
                 then (False, cmd,
                       tr @ [Log_error ''LVM_SYSTEM_DIR was too long'' [], Destroy_config_tree])
                 else
                   let tr = tr @ [Stat config_file (stat w config_file)]
                   in case stat w config_file of
                        Stat_ENOENT \<Rightarrow> (True, cmd, tr)
                      | Stat_error \<Rightarrow>
                          (False, cmd,
                           tr @ [Log_sys_error ''stat'' config_file, Destroy_config_tree])
                      | Stat_ok mtime \<Rightarrow>
                          (case read_config_file w config_file of
                             None \<Rightarrow>
                               (False, cmd,
                                tr @ [Read_config_file config_file False,
                                      Log_error ''Failed to load config file %s'' [S config_file],
                                      Destroy_config_tree])
                           | Some t \<Rightarrow>
                               (True, cmd\<lparr>cf := Some t\<rparr>,
                                tr @ [Read_config_file config_file True])))"

subsection \<open>\<open>_init_dev_cache\<close>\<close>

text \<open>The \<open>for (cv = cn->v; cv; cv = cv->next)\<close> loop over the values of \<open>devices/scan\<close>.\<close>

fun init_dev_cache_loop :: "world \<Rightarrow> config_value list \<Rightarrow> bool \<times> event list" where
  "init_dev_cache_loop w [] = (True, [])"
| "init_dev_cache_loop w (cv # rest) =
     (case cv of
        CFG_STRING str \<Rightarrow>
          if \<not> dev_cache_add_dir w str
          then (False, [Dev_cache_add_dir str False,
                        Log_error ''Failed to add %s to internal device cache'' [S str]])
          else (case init_dev_cache_loop w rest of
                  (ok, tr) \<Rightarrow> (ok, Dev_cache_add_dir str True # tr))
      | _ \<Rightarrow> (False, [Log_error ''Invalid string in config file: devices/scan'' []]))"

definition init_dev_cache :: "world \<Rightarrow> cmd_context \<Rightarrow> bool \<times> event list" where
  "init_dev_cache w cmd =
     (if \<not> dev_cache_init w then (False, [Dev_cache_init False, Stack])
      else
        let tr = [Dev_cache_init True]
        in case find_config_node (cf_root cmd) ''devices/scan'' of
             None \<Rightarrow>
               if \<not> dev_cache_add_dir w ''/dev''
               then (False, tr @ [Dev_cache_add_dir ''/dev'' False,
                                  Log_error ''Failed to add /dev to internal device cache'' []])
               else (True, tr @ [Dev_cache_add_dir ''/dev'' True,
                                 Log_verbose ''device/scan not in config file: Defaulting to /dev'' []])
           | Some cn \<Rightarrow>
               (case init_dev_cache_loop w cn of (ok, tr_loop) \<Rightarrow> (ok, tr @ tr_loop)))"

subsection \<open>\<open>_init_filter_components\<close> and \<open>_init_filters\<close>\<close>

definition init_filter_components :: "world \<Rightarrow> cmd_context \<Rightarrow> dev_filter option \<times> event list" where
  "init_filter_components w cmd =
     (let cn = find_config_node (cf_root cmd) ''devices/types''
      in if \<not> lvm_type_filter_create w (proc_dir cmd) cn
         then (None, [Lvm_type_filter_create False])
         else
           let f2 = Type_filter (proc_dir cmd) cn;
               tr = [Lvm_type_filter_create True]
           in case find_config_node (cf_root cmd) ''devices/filter'' of
                None \<Rightarrow>
                  (Some f2,
                   tr @ [Log_debug
                           ''devices/filter not found in config file: no regex filter installed'' []])
              | Some cn \<Rightarrow>
                  if \<not> regex_filter_create w cn
                  then (None, tr @ [Regex_filter_create False,
                                    Log_error ''Failed to create regex device filter'' []])
                  else
                    let f1 = Regex_filter cn;
                        tr = tr @ [Regex_filter_create True]
                    in if \<not> composite_filter_create w [f1, f2]
                       then (None, tr @ [Composite_filter_create False,
                                         Log_error ''Failed to create composite device filter'' []])
                       else (Some (Composite_filter [f1, f2]),
                             tr @ [Composite_filter_create True]))"

text \<open>\<open>config_file_timestamp(cmd->cf)\<close>\<close>

definition cf_timestamp :: "cmd_context \<Rightarrow> int" where
  "cf_timestamp cmd = (case cf cmd of Some t \<Rightarrow> config_file_timestamp t | None \<Rightarrow> 0)"

definition init_filters :: "world \<Rightarrow> cmd_context \<Rightarrow> bool \<times> cmd_context \<times> event list" where
  "init_filters w cmd =
     (let cmd = cmd\<lparr>dump_filter := False\<rparr>
      in case init_filter_components w cmd of
           (None, tr) \<Rightarrow> (False, cmd, tr)
         | (Some f3, tr) \<Rightarrow>
             (case lvm_snprintf PATH_MAX (sys_dir cmd @ ''/.cache'') of
                (fits, cache_file) \<Rightarrow>
                  if \<not> fits
                  then (False, cmd,
                        tr @ [Log_error ''Persistent cache filename too long ('%s/.cache').''
                                [S (sys_dir cmd)]])
                  else
                    let lvm_cache = find_config_str_dflt (cf_root cmd) ''devices/cache'' cache_file
                    in if \<not> persistent_filter_create w f3 lvm_cache
                       then (False, cmd,
                             tr @ [Persistent_filter_create lvm_cache False,
                                   Log_error ''Failed to create persistent device filter'' []])
                       else
                         let f4 = Persistent_filter f3 lvm_cache;
                             tr = tr @ [Persistent_filter_create lvm_cache True];
                             cmd = (if find_config_int (cf_root cmd) ''devices/write_cache_state'' 1 \<noteq> 0
                                    then cmd\<lparr>dump_filter := True\<rparr> else cmd);
                             cmd = (if sys_dir cmd = [] then cmd\<lparr>dump_filter := False\<rparr> else cmd);
                             tr = tr @ [Stat lvm_cache (stat w lvm_cache)];
                             tr = tr @
                               (case stat w lvm_cache of
                                  Stat_ok mtime \<Rightarrow>
                                    if mtime > cf_timestamp cmd
                                    then if \<not> persistent_filter_load w f4
                                         then [Persistent_filter_load False,
                                               Log_verbose
                                                 ''Failed to load existing device cache from %s''
                                                 [S lvm_cache]]
                                         else [Persistent_filter_load True]
                                    else []
                                | _ \<Rightarrow> [])
                         in (True, cmd\<lparr>filter_ptr := Some f4\<rparr>, tr)))"

subsection \<open>\<open>_init_formats\<close>\<close>

text \<open>
  Modelled from the spec: the format list keeps "insertion order" (list.h is not among the
  sources), so \<open>list_add\<close> puts the element at the end.
\<close>

definition list_add :: "'a list \<Rightarrow> 'a \<Rightarrow> 'a list" where
  "list_add head elem = head @ [elem]"

text \<open>ASCII \<open>tolower\<close> and \<open>strcasecmp\<close> of libc; the source only tests the result against zero.\<close>

definition tolower :: "char \<Rightarrow> char" where
  "tolower c =
     (case map_of (zip ''ABCDEFGHIJKLMNOPQRSTUVWXYZ'' ''abcdefghijklmnopqrstuvwxyz'') c of
        Some l \<Rightarrow> l
      | None \<Rightarrow> c)"

definition strcasecmp :: "string \<Rightarrow> string \<Rightarrow> int" where
  "strcasecmp a b = (if map tolower a = map tolower b then 0 else 1)"

text \<open>The \<open>#ifdef LVM1_INTERNAL\<close> block.\<close>

definition init_formats_lvm1 :: "build \<Rightarrow> world \<Rightarrow> cmd_context \<Rightarrow> bool \<times> cmd_context \<times> event list" where
  "init_formats_lvm1 b w cmd =
     (if LVM1_INTERNAL b
      then (case init_lvm1_format w of
              None \<Rightarrow> (False, cmd, [Init_lvm1_format False])
            | Some fmt' \<Rightarrow>
                (True, cmd\<lparr>formats := list_add (formats cmd) (fmt'\<lparr>library := None\<rparr>)\<rparr>,
                 [Init_lvm1_format True]))
      else (True, cmd, []))"

text \<open>The loop over the values of \<open>global/format_libraries\<close>.\<close>

fun init_formats_libs :: "world \<Rightarrow> config_value list \<Rightarrow> cmd_context \<Rightarrow> bool \<times> cmd_context \<times> event list" where
  "init_formats_libs w [] cmd = (True, cmd, [])"
| "init_formats_libs w (cv # rest) cmd =
     (case cv of
        CFG_STRING str \<Rightarrow>
          (case load_shared_library w str of
             None \<Rightarrow> (False, cmd, [Load_shared_library str False, Stack])
           | Some l \<Rightarrow>
               (case dlsym w l ''init_format'' of
                  None \<Rightarrow>
                    (False, cmd,
                     [Load_shared_library str True, Dlsym l False,
                      Log_error ''Shared library %s does not contain format functions'' [S str],
                      Dlclose l])
                | Some init_format_fn \<Rightarrow>
                    (case init_format_fn of
                       None \<Rightarrow>
                         (False, cmd,
                          [Load_shared_library str True, Dlsym l True, Init_format_fn l False])
                     | Some fmt' \<Rightarrow>
                         (case init_formats_libs w rest
                                 (cmd\<lparr>formats := list_add (formats cmd) (fmt'\<lparr>library := Some l\<rparr>)\<rparr>) of
                            (ok, cmd', tr) \<Rightarrow>
                              (ok, cmd',
                               [Load_shared_library str True, Dlsym l True, Init_format_fn l True]
                               @ tr)))))
      | _ \<Rightarrow> (False, cmd, [Log_error ''Invalid string in config file: global/format_libraries'' []]))"

text \<open>The \<open>#ifdef HAVE_LIBDL\<close> block.\<close>

definition init_formats_libdl :: "build \<Rightarrow> world \<Rightarrow> cmd_context \<Rightarrow> bool \<times> cmd_context \<times> event list" where
  "init_formats_libdl b w cmd =
     (if HAVE_LIBDL b
      then (case find_config_node (cf_root cmd) ''global/format_libraries'' of
              Some cn \<Rightarrow> init_formats_libs w cn cmd
            | None \<Rightarrow> (True, cmd, []))
      else (True, cmd, []))"

text \<open>
  The \<open>list_iterate\<close> loop that resolves the default format: \<open>i\<close> is the position of the
  head of the remaining list, returned as the pointer to the handler found.
\<close>

fun init_formats_select :: "format_type list \<Rightarrow> string \<Rightarrow> nat \<Rightarrow> nat option" where
  "init_formats_select [] format i = None"
| "init_formats_select (fmt' # rest) format i =
     (if strcasecmp (name fmt') format = 0 \<or>
         (case alias_name fmt' of Some a \<Rightarrow> strcasecmp a format = 0 | None \<Rightarrow> False)
      then Some i
      else init_formats_select rest format (Suc i))"

definition init_formats :: "build \<Rightarrow> world \<Rightarrow> cmd_context \<Rightarrow> bool \<times> cmd_context \<times> event list" where
  "init_formats b w cmd =
     (case init_formats_lvm1 b w cmd of
        (ok1, cmd, tr1) \<Rightarrow>
          let tr = Label_init # tr1 in
          if \<not> ok1 then (False, cmd, tr)
          else
            case init_formats_libdl b w cmd of
              (ok2, cmd, tr2) \<Rightarrow>
                let tr = tr @ tr2 in
                if \<not> ok2 then (False, cmd, tr)
                else
                  case create_text_format w of
                    None \<Rightarrow> (False, cmd, tr @ [Create_text_format False])
                  | Some fmt' \<Rightarrow>
                      let tr = tr @ [Create_text_format True];
                          cmd = cmd\<lparr>formats := list_add (formats cmd) (fmt'\<lparr>library := None\<rparr>)\<rparr>;
                          cmd = cmd\<lparr>fmt_backup := Some (length (formats cmd) - 1)\<rparr>;
                          format = find_config_str_dflt (cf_root cmd) ''global/format''
                                     (DEFAULT_FORMAT b)
                      in case init_formats_select (formats cmd) format 0 of
                           Some i \<Rightarrow>
                             (True,
                              cmd\<lparr>default_settings := (default_settings cmd)\<lparr>fmt := Some i\<rparr>\<rparr>,
                              tr)
                         | None \<Rightarrow>
                             (False, cmd,
                              tr @ [Log_error ''_init_formats: Default format (%s) not found''
                                      [S format]]))"

subsection \<open>\<open>create_toolcontext\<close>: the entry point\<close>

text \<open>
  The \<open>error:\<close> label, reached with the trace so far. The result of \<open>create_toolcontext\<close> is
  the context (or null), \<open>_log\<close> on return, and the trace of the whole run.
\<close>

definition error_exit :: "string option \<Rightarrow> event list \<Rightarrow> cmd_context option \<times> string option \<times> event list" where
  "error_exit glob_log tr = (None, glob_log, tr @ [Dbg_free])"

definition create_toolcontext ::
  "build \<Rightarrow> world \<Rightarrow> string list \<Rightarrow> string option \<Rightarrow> cmd_context option \<times> string option \<times> event list" where
  "create_toolcontext b w the_args glob_log =
     (let tr = (if \<not> setlocale w
                then [Setlocale False, Log_error ''setlocale failed'' []]
                else [Setlocale True]);
          tr = tr @ [Init_syslog (DEFAULT_LOG_FACILITY b)]
      in if \<not> dbg_malloc w
         then (None, glob_log,
               tr @ [Dbg_malloc False, Log_error ''Failed to allocate command context'' []])
         else
           let tr = tr @ [Dbg_malloc True];
               cmd = zero_cmd\<lparr>args := the_args, formats := [], sys_dir := DEFAULT_SYS_DIR b\<rparr>
           in case get_env_vars w cmd of
                (ok_env, cmd, tr_env) \<Rightarrow>
                  let tr = tr @ tr_env in
                  if \<not> ok_env then error_exit glob_log tr
                  else if sys_dir cmd \<noteq> [] \<and> \<not> create_dir w (sys_dir cmd)
                  then error_exit glob_log (tr @ [Create_dir (sys_dir cmd) False])
                  else
                    let tr = tr @ (if sys_dir cmd \<noteq> [] then [Create_dir (sys_dir cmd) True] else [])
                    in case init_config w cmd of
                         (ok_config, cmd, tr_config) \<Rightarrow>
                           let tr = tr @ tr_config in
                           if \<not> ok_config then error_exit glob_log tr
                           else
                             case init_logging b w cmd glob_log of
                               (cmd, glob_log, tr_logging) \<Rightarrow>
                                 let tr = tr @ tr_logging in
                                 case process_config b w cmd of
                                   (ok_process, cmd, tr_process) \<Rightarrow>
                                     let tr = tr @ tr_process in
                                     if \<not> ok_process then error_exit glob_log tr
                                     else
                                       case init_dev_cache w cmd of
                                         (ok_dev, tr_dev) \<Rightarrow>
                                           let tr = tr @ tr_dev in
                                           if \<not> ok_dev then error_exit glob_log tr
                                           else
                                             case init_filters w cmd of
                                               (ok_filters, cmd, tr_filters) \<Rightarrow>
                                                 let tr = tr @ tr_filters in
                                                 if \<not> ok_filters then error_exit glob_log tr
                                                 else if \<not> pool_create w (4 * 1024)
                                                 then (None, glob_log,
                                                       tr @ [Pool_create (4 * 1024) False,
                                                             Log_error ''Command memory pool creation failed'' []])
                                                 else
                                                   case init_formats b w (cmd\<lparr>mem := True\<rparr>) of
                                                     (ok_formats, cmd, tr_formats) \<Rightarrow>
                                                       let tr = tr @ [Pool_create (4 * 1024) True] @ tr_formats in
                                                       if \<not> ok_formats then error_exit glob_log tr
                                                       else (Some (cmd\<lparr>current_settings := default_settings cmd\<rparr>),
                                                             glob_log, tr))"

subsection \<open>\<open>_destroy_formats\<close> and \<open>destroy_toolcontext\<close>\<close>

fun destroy_formats :: "build \<Rightarrow> format_type list \<Rightarrow> event list" where
  "destroy_formats b [] = []"
| "destroy_formats b (fmt' # rest) =
     (let l = library fmt';
          tr = [Format_destroy (name fmt')];
          tr = tr @ (if HAVE_LIBDL b then (case l of Some h \<Rightarrow> [Dlclose h] | None \<Rightarrow> []) else [])
      in tr @ destroy_formats b rest)"

text \<open>\<open>glob_log\<close> is \<open>_log\<close> when the function is called.\<close>

definition destroy_toolcontext :: "build \<Rightarrow> cmd_context \<Rightarrow> string option \<Rightarrow> event list" where
  "destroy_toolcontext b cmd glob_log =
     (let tr = (if dump_filter cmd then [Persistent_filter_dump (filter_ptr cmd)] else []);
          tr = tr @ [Cache_destroy];
          tr = tr @ [Label_exit];
          tr = tr @ destroy_formats b (formats cmd);
          tr = tr @ [Filter_destroy (filter_ptr cmd)];
          tr = tr @ [Pool_destroy];
          tr = tr @ [Dev_cache_exit];
          tr = tr @ [Destroy_config_tree];
          tr = tr @ [Dbg_free];
          tr = tr @ [Dump_memory];
          tr = tr @ [Fin_log];
          tr = tr @ [Fin_syslog]
      in if glob_log \<noteq> None then tr @ [Fclose] else tr)"

section \<open>Example inputs and auxiliary notions\<close>

text \<open>A build with every optional part compiled in and the values of a stock \<open>defaults.h\<close>.\<close>

definition example_build :: build where
  "example_build = \<lparr>LVM1_INTERNAL = True, HAVE_LIBDL = True, DEVMAPPER_SUPPORT = True,
     DEFAULT_SYS_DIR = ''/etc/lvm'', DEFAULT_DEV_DIR = ''/dev'', DEFAULT_PROC_DIR = ''/proc'',
     DEFAULT_FORMAT = ''lvm2'', DEFAULT_UNITS = ''h'', DEFAULT_MSG_PREFIX = ''  '',
     DEFAULT_LOG_FACILITY = 8, DEFAULT_SYSLOG = 1, DEFAULT_LOGLEVEL = 0, DEFAULT_VERBOSE = 0,
     DEFAULT_INDENT = 1, DEFAULT_CMD_NAME = 0, DEFAULT_OVERWRITE = 0, DEFAULT_UMASK = 63,
     DEFAULT_ACTIVATION = 1, DEFAULT_SUFFIX = 1\<rparr>"

definition lvm1_format :: format_type where
  "lvm1_format = \<lparr>name = ''lvm1'', alias_name = None, library = None\<rparr>"

definition text_format :: format_type where
  "text_format = \<lparr>name = ''lvm2'', alias_name = Some ''text'', library = None\<rparr>"

definition example_filter :: dev_filter where
  "example_filter = Persistent_filter (Type_filter ''/proc'' None) ''/etc/lvm/.cache''"

text \<open>A context as \<open>create_toolcontext\<close> leaves it when there is no configuration file.\<close>

definition example_settings :: config_info where
  "example_settings = \<lparr>syslog = 1, debug = 0, verbose = 0, msg_prefix = ''  '', cmd_name = 0,
     test = 0, umask = 63, activation = 1, suffix = 1, unit_factor = 1,
     unit_type = CHR ''h'', fmt = Some 1\<rparr>"

definition example_cmd :: cmd_context where
  "example_cmd = zero_cmd\<lparr>sys_dir := ''/etc/lvm'', dev_dir := ''/dev/'', proc_dir := ''/proc'',
     cf := Some empty_config_tree, default_settings := example_settings,
     current_settings := example_settings, filter_ptr := Some example_filter,
     dump_filter := True, mem := True, formats := [lvm1_format, text_format],
     fmt_backup := Some 1\<rparr>"

text \<open>\<open>before a b tr\<close>: \<open>a\<close> occurs in the trace and \<open>b\<close> occurs later than it.\<close>

primrec before :: "event \<Rightarrow> event \<Rightarrow> event list \<Rightarrow> bool" where
  "before a b [] = False"
| "before a b (e # es) = (if e = a then b \<in> set es else before a b es)"

text \<open>What \<open>_destroy_formats\<close> does for one handler: destroy it, then close its library.\<close>

definition format_teardown :: "build \<Rightarrow> format_type \<Rightarrow> event list" where
  "format_teardown b f =
     Format_destroy (name f) #
       (if HAVE_LIBDL b then (case library f of Some h \<Rightarrow> [Dlclose h] | None \<Rightarrow> []) else [])"

text \<open>A world in which every call succeeds and there is no configuration file.\<close>

definition example_world :: world where
  "example_world = \<lparr>getenv = (\<lambda>v. None), setlocale = True, dbg_malloc = True,
     create_dir = (\<lambda>d. True), create_config_tree = True, stat = (\<lambda>p. Stat_ENOENT),
     read_config_file = (\<lambda>p. None), fopen = (\<lambda>f m. True), time_now = 0, umask_prev = 18,
     units_to_bytes = (\<lambda>u. if u = ''h'' then (1, CHR ''h'') else (0, CHR 0x00)),
     dev_cache_init = True, dev_cache_add_dir = (\<lambda>d. True),
     lvm_type_filter_create = (\<lambda>p cn. True), regex_filter_create = (\<lambda>cn. True),
     composite_filter_create = (\<lambda>fs. True), persistent_filter_create = (\<lambda>f p. True),
     persistent_filter_load = (\<lambda>f. True), pool_create = (\<lambda>n. True),
     init_lvm1_format = Some lvm1_format, load_shared_library = (\<lambda>p. None),
     dlsym = (\<lambda>l sym. None), create_text_format = Some text_format\<rparr>"

text \<open>A configuration that sets the keys the properties below are about.\<close>

definition example_config :: config_tree where
  "example_config = \<lparr>root = [''devices/scan'' \<mapsto> [CFG_STRING ''/dev'', CFG_STRING ''/mnt/extra''],
       ''devices/cache'' \<mapsto> [CFG_STRING ''/tmp/c''],
       ''devices/write_cache_state'' \<mapsto> [CFG_INT 1],
       ''log/file'' \<mapsto> [CFG_STRING ''/var/log/lvm2.log''],
       ''log/overwrite'' \<mapsto> [CFG_INT 1],
       ''global/format'' \<mapsto> [CFG_STRING ''TEXT'']],
     timestamp = 100\<rparr>"

text \<open>The directory a \<open>Dev_cache_add_dir\<close> event registered, if it did.\<close>

fun dir_registered :: "event \<Rightarrow> string option" where
  "dir_registered (Dev_cache_add_dir d ok) = (if ok then Some d else None)"
| "dir_registered e = None"

definition registered_dirs :: "event list \<Rightarrow> string list" where
  "registered_dirs tr = List.map_filter dir_registered tr"

text \<open>An entry of \<open>devices/scan\<close> the loop gets past: a string whose registration succeeds.\<close>

definition scan_entry_ok :: "world \<Rightarrow> config_value \<Rightarrow> bool" where
  "scan_entry_ok w cv = (case cv of CFG_STRING str \<Rightarrow> dev_cache_add_dir w str | _ \<Rightarrow> False)"

definition scan_entry_dir :: "config_value \<Rightarrow> string" where
  "scan_entry_dir cv = (case cv of CFG_STRING str \<Rightarrow> str | _ \<Rightarrow> [])"

text \<open>The handler's name or its alias equals the string up to the case of ASCII letters.\<close>

definition format_matches :: "format_type \<Rightarrow> string \<Rightarrow> bool" where
  "format_matches f format =
     (map tolower (name f) = map tolower format \<or>
      (case alias_name f of Some a \<Rightarrow> map tolower a = map tolower format | None \<Rightarrow> False))"

text \<open>The number of calls of \<open>persistent_filter_load\<close> in a trace.\<close>

fun is_load :: "event \<Rightarrow> bool" where
  "is_load (Persistent_filter_load ok) = True"
| "is_load e = False"

definition load_calls :: "event list \<Rightarrow> nat" where
  "load_calls tr = length (filter is_load tr)"

text \<open>
  A world with a configuration file \<open>/etc/lvm/lvm.conf\<close> holding \<open>example_config\<close>, and a
  persistent cache file \<open>/tmp/c\<close> written after it.
\<close>

definition configured_world :: world where
  "configured_world = example_world\<lparr>
     stat := (\<lambda>p. if p = ''/etc/lvm/lvm.conf'' then Stat_ok 100
                  else if p = ''/tmp/c'' then Stat_ok 200 else Stat_ENOENT),
     read_config_file := (\<lambda>p. if p = ''/etc/lvm/lvm.conf'' then Some example_config else None)\<rparr>"
text \<open>
  The calls \<open>create_toolcontext\<close> makes before it allocates the context, and the context as
  it stands before the first step.
\<close>

definition create_start_trace :: "build \<Rightarrow> world \<Rightarrow> event list" where
  "create_start_trace b w =
     (if \<not> setlocale w then [Setlocale False, Log_error ''setlocale failed'' []]
      else [Setlocale True]) @ [Init_syslog (DEFAULT_LOG_FACILITY b)]"

definition create_start_cmd :: "build \<Rightarrow> string list \<Rightarrow> cmd_context" where
  "create_start_cmd b the_args =
     zero_cmd\<lparr>args := the_args, formats := [], sys_dir := DEFAULT_SYS_DIR b\<rparr>"

definition create_dir_trace :: "cmd_context \<Rightarrow> event list" where
  "create_dir_trace cmd = (if sys_dir cmd \<noteq> [] then [Create_dir (sys_dir cmd) True] else [])"

text \<open>
  Events that give a resource back: the context structure, the configuration tree, the log
  file, the device cache, the filter chain, the arena, a format handler, a loaded library,
  the label registry and the metadata cache.
\<close>

fun is_release :: "event \<Rightarrow> bool" where
  "is_release Dbg_free = True"
| "is_release Destroy_config_tree = True"
| "is_release Fclose = True"
| "is_release Dev_cache_exit = True"
| "is_release (Filter_destroy f) = True"
| "is_release Pool_destroy = True"
| "is_release (Format_destroy n) = True"
| "is_release (Dlclose l) = True"
| "is_release Label_exit = True"
| "is_release Cache_destroy = True"
| "is_release e = False"
text \<open>Worlds in which exactly one call fails.\<close>

definition no_type_filter_world :: world where
  "no_type_filter_world = example_world\<lparr>lvm_type_filter_create := (\<lambda>p cn. False)\<rparr>"

definition no_pool_world :: world where
  "no_pool_world = example_world\<lparr>pool_create := (\<lambda>n. False)\<rparr>"

text \<open>The mode \<open>_init_logging\<close> passes to \<open>fopen\<close>.\<close>

definition log_open_mode :: "build \<Rightarrow> cmd_context \<Rightarrow> string" where
  "log_open_mode b cmd =
     (if find_config_int (cf_root cmd) ''log/overwrite'' (DEFAULT_OVERWRITE b) \<noteq> 0
      then ''w'' else ''a'')"

text \<open>The path of the persistent cache file: \<open>devices/cache\<close>, by default \<open><sys_dir>/.cache\<close>.\<close>

definition lvm_cache_path :: "cmd_context \<Rightarrow> string" where
  "lvm_cache_path cmd =
     find_config_str_dflt (cf_root cmd) ''devices/cache'' (sys_dir cmd @ ''/.cache'')"

text \<open>
  \<open>stat\<close> on the cache file succeeds and its modification time is strictly greater than the
  timestamp of the configuration.
\<close>

definition cache_newer :: "world \<Rightarrow> cmd_context \<Rightarrow> bool" where
  "cache_newer w cmd =
     (case stat w (lvm_cache_path cmd) of
        Stat_ok mtime \<Rightarrow> mtime > cf_timestamp cmd
      | _ \<Rightarrow> False)"

text \<open>A context with the configuration \<open>example_config\<close> loaded.\<close>

definition configured_cmd :: cmd_context where
  "configured_cmd = example_cmd\<lparr>cf := Some example_config\<rparr>"

text \<open>A system directory of 4090 characters, and a context and a world that have it.\<close>

definition long_dir :: string where
  "long_dir = replicate 4090 (CHR ''d'')"

definition long_dir_cmd :: cmd_context where
  "long_dir_cmd = configured_cmd\<lparr>sys_dir := long_dir\<rparr>"

definition long_dir_world :: world where
  "long_dir_world = example_world\<lparr>getenv := (\<lambda>v. if v = ''LVM_SYSTEM_DIR'' then Some long_dir else None)\<rparr>"

text \<open>A world whose environment sets the system directory to the empty string.\<close>

definition empty_dir_world :: world where
  "empty_dir_world =
     example_world\<lparr>getenv := (\<lambda>v. if v = ''LVM_SYSTEM_DIR'' then Some [] else None)\<rparr>"

text \<open>
  The configured world with a cache file that cannot be loaded, or a log file that cannot
  be opened.
\<close>

definition bad_cache_world :: world where
  "bad_cache_world = configured_world\<lparr>persistent_filter_load := (\<lambda>f. False)\<rparr>"

definition no_log_world :: world where
  "no_log_world = configured_world\<lparr>fopen := (\<lambda>f m. False)\<rparr>"

text \<open>The trace of \<open>create_toolcontext\<close> in \<open>example_world\<close>.\<close>

definition example_trace :: "event list" where
  "example_trace =
     [Setlocale True, Init_syslog 8, Dbg_malloc True,
      Create_dir ''/etc/lvm'' True, Create_config_tree True,
      Stat ''/etc/lvm/lvm.conf'' Stat_ENOENT, Init_debug 0, Init_verbose 0,
      Init_indent 1, Init_msg_prefix ''  '', Init_cmd_name 0, Time,
      Log_verbose ''Logging initialised at %s'' [I 0], Dm_log_init,
      Umask 63, Log_verbose ''Set umask to %04o'' [I 63],
      Dm_set_dev_dir ''/dev/'', Set_activation 1, Units_to_bytes ''h'',
      Dev_cache_init True, Dev_cache_add_dir ''/dev'' True,
      Log_verbose ''device/scan not in config file: Defaulting to /dev'' [],
      Lvm_type_filter_create True,
      Log_debug ''devices/filter not found in config file: no regex filter installed'' [],
      Persistent_filter_create ''/etc/lvm/.cache'' True,
      Stat ''/etc/lvm/.cache'' Stat_ENOENT, Pool_create 4096 True,
      Label_init, Init_lvm1_format True, Create_text_format True]"
text \<open>The context and the trace of \<open>create_toolcontext\<close> in \<open>empty_dir_world\<close>.\<close>

definition empty_dir_cmd :: cmd_context where
  "empty_dir_cmd = example_cmd\<lparr>sys_dir := [], dump_filter := False,
     filter_ptr := Some (Persistent_filter (Type_filter ''/proc'' None) ''/.cache'')\<rparr>"

definition empty_dir_trace :: "event list" where
  "empty_dir_trace =
     [Setlocale True, Init_syslog 8, Dbg_malloc True, Create_config_tree True,
      Init_debug 0, Init_verbose 0,
      Init_indent 1, Init_msg_prefix ''  '', Init_cmd_name 0, Time,
      Log_verbose ''Logging initialised at %s'' [I 0], Dm_log_init,
      Umask 63, Log_verbose ''Set umask to %04o'' [I 63],
      Dm_set_dev_dir ''/dev/'', Set_activation 1, Units_to_bytes ''h'',
      Dev_cache_init True, Dev_cache_add_dir ''/dev'' True,
      Log_verbose ''device/scan not in config file: Defaulting to /dev'' [],
      Lvm_type_filter_create True,
      Log_debug ''devices/filter not found in config file: no regex filter installed'' [],
      Persistent_filter_create ''/.cache'' True,
      Stat ''/.cache'' Stat_ENOENT, Pool_create 4096 True,
      Label_init, Init_lvm1_format True, Create_text_format True]"

text \<open>Handlers that share an alias, and one that is loaded from a library.\<close>

definition alias_formats :: "format_type list" where
  "alias_formats =
     [\<lparr>name = ''lvm1'', alias_name = None, library = None\<rparr>,
      \<lparr>name = ''pool'', alias_name = Some ''Text'', library = Some 7\<rparr>,
      \<lparr>name = ''lvm2'', alias_name = Some ''text'', library = None\<rparr>]"

section \<open>Properties\<close>

subsection \<open>Teardown order\<close>

lemma destroy_formats_concat:
  "destroy_formats b fs = concat (map (format_teardown b) fs)"
  by (induction fs) (simp_all add: format_teardown_def Let_def)

text \<open>
  C2, as the code has it. \<open>destroy_toolcontext\<close> makes its calls in exactly this order: the
  dump of the persistent filter if the dump flag is set; \<open>cache_destroy\<close> and \<open>label_exit\<close>;
  every format handler, each followed by the closing of its library; the filter chain; the
  memory arena; only then the device cache (\<open>dev_cache_exit\<close>); the configuration tree; the
  context structure; \<open>dump_memory\<close>, \<open>fin_log\<close>, \<open>fin_syslog\<close>; and last the closing of the
  log file if one is open.
\<close>

theorem destroy_toolcontext_order:
  "destroy_toolcontext b cmd glob_log =
     (if dump_filter cmd then [Persistent_filter_dump (filter_ptr cmd)] else [])
     @ [Cache_destroy, Label_exit]
     @ concat (map (format_teardown b) (formats cmd))
     @ [Filter_destroy (filter_ptr cmd), Pool_destroy, Dev_cache_exit, Destroy_config_tree,
        Dbg_free, Dump_memory, Fin_log, Fin_syslog]
     @ (if glob_log \<noteq> None then [Fclose] else [])"
  by (simp add: destroy_toolcontext_def destroy_formats_concat Let_def)

theorem destroy_toolcontext_order_witness:
  "destroy_toolcontext example_build example_cmd (Some ''/var/log/lvm2.log'') =
     [Persistent_filter_dump (Some example_filter), Cache_destroy, Label_exit,
      Format_destroy ''lvm1'', Format_destroy ''lvm2'',
      Filter_destroy (Some example_filter), Pool_destroy, Dev_cache_exit, Destroy_config_tree,
      Dbg_free, Dump_memory, Fin_log, Fin_syslog, Fclose]"
  using destroy_toolcontext_order [of example_build example_cmd "Some ''/var/log/lvm2.log''"]
  by (simp add: example_cmd_def zero_cmd_def format_teardown_def lvm1_format_def
      text_format_def example_build_def)

text \<open>
  C2, as the claim words it, fails: the device cache is not released before the format
  handlers, the filter chain and the arena, but after all three.
\<close>

theorem dev_cache_released_after_arena:
  "\<not> before Dev_cache_exit (Format_destroy ''lvm1'')
       (destroy_toolcontext example_build example_cmd (Some ''/var/log/lvm2.log'')) \<and>
   \<not> before Dev_cache_exit (Filter_destroy (Some example_filter))
       (destroy_toolcontext example_build example_cmd (Some ''/var/log/lvm2.log'')) \<and>
   \<not> before Dev_cache_exit Pool_destroy
       (destroy_toolcontext example_build example_cmd (Some ''/var/log/lvm2.log'')) \<and>
   before Pool_destroy Dev_cache_exit
       (destroy_toolcontext example_build example_cmd (Some ''/var/log/lvm2.log''))"
  by (simp add: destroy_toolcontext_def Let_def example_cmd_def zero_cmd_def lvm1_format_def
      text_format_def example_build_def)

subsection \<open>Device-cache directories\<close>

lemma registered_dirs_simps [simp]:
  "registered_dirs [] = []"
  "registered_dirs (e # es) =
     (case dir_registered e of Some d \<Rightarrow> d # registered_dirs es | None \<Rightarrow> registered_dirs es)"
  "registered_dirs (xs @ ys) = registered_dirs xs @ registered_dirs ys"
  by (simp_all add: registered_dirs_def List.map_filter_def split: option.split)

lemma init_dev_cache_loop_ok:
  "fst (init_dev_cache_loop w cn) = list_all (scan_entry_ok w) cn"
  by (induction cn) (auto simp: scan_entry_ok_def split: config_value.split prod.split)

lemma init_dev_cache_loop_registered:
  "registered_dirs (snd (init_dev_cache_loop w cn)) = map scan_entry_dir (takeWhile (scan_entry_ok w) cn)"
  by (induction cn)
    (auto simp: scan_entry_ok_def scan_entry_dir_def split: config_value.split prod.split)

text \<open>
  C8, as the code has it. The step succeeds exactly when \<open>dev_cache_init\<close> succeeds and
  then, with no \<open>devices/scan\<close> node, the registration of \<open>/dev\<close> succeeds, or, with the
  node, every entry is a string whose registration succeeds. The directories registered are:
  none when \<open>dev_cache_init\<close> fails; \<open>/dev\<close> alone (if its registration succeeds) when
  the node is absent; otherwise the listed entries in list order up to, and not including,
  the first entry that is not a string or whose registration fails.
\<close>

theorem init_dev_cache_result:
  "fst (init_dev_cache w cmd) =
     (dev_cache_init w \<and>
      (case find_config_node (cf_root cmd) ''devices/scan'' of
         None \<Rightarrow> dev_cache_add_dir w ''/dev''
       | Some cn \<Rightarrow> list_all (scan_entry_ok w) cn)) \<and>
   registered_dirs (snd (init_dev_cache w cmd)) =
     (if \<not> dev_cache_init w then []
      else case find_config_node (cf_root cmd) ''devices/scan'' of
             None \<Rightarrow> if dev_cache_add_dir w ''/dev'' then [''/dev''] else []
           | Some cn \<Rightarrow> map scan_entry_dir (takeWhile (scan_entry_ok w) cn))"
  by (simp add: init_dev_cache_def Let_def init_dev_cache_loop_registered
      init_dev_cache_loop_ok case_prod_unfold split: option.split)

theorem init_dev_cache_result_witness:
  "fst (init_dev_cache example_world (example_cmd\<lparr>cf := Some example_config\<rparr>)) \<and>
   registered_dirs (snd (init_dev_cache example_world (example_cmd\<lparr>cf := Some example_config\<rparr>)))
     = [''/dev'', ''/mnt/extra'']"
  using init_dev_cache_result [of example_world "example_cmd\<lparr>cf := Some example_config\<rparr>"]
  by (simp add: example_world_def example_cmd_def example_config_def cf_root_def
      find_config_node_def scan_entry_ok_def scan_entry_dir_def)

text \<open>
  C8, as the claim words it, fails: with no \<open>devices/scan\<close> node the step does not succeed
  when the registration of \<open>/dev\<close> fails; and with every listed entry a string that would
  register, the step still fails, registering nothing, when \<open>dev_cache_init\<close> fails.
\<close>

theorem init_dev_cache_default_dir_failure:
  "find_config_node (cf_root example_cmd) ''devices/scan'' = None \<and>
   fst (init_dev_cache (example_world\<lparr>dev_cache_add_dir := (\<lambda>d. False)\<rparr>) example_cmd) = False \<and>
   find_config_node (cf_root (example_cmd\<lparr>cf := Some example_config\<rparr>)) ''devices/scan''
     = Some [CFG_STRING ''/dev'', CFG_STRING ''/mnt/extra''] \<and>
   init_dev_cache (example_world\<lparr>dev_cache_init := False\<rparr>)
     (example_cmd\<lparr>cf := Some example_config\<rparr>) = (False, [Dev_cache_init False, Stack])"
  by (simp add: init_dev_cache_def example_world_def example_cmd_def example_config_def
      cf_root_def find_config_node_def empty_config_tree_def zero_cmd_def)

subsection \<open>Selection of the default format\<close>

lemma strcasecmp_zero: "strcasecmp a b = 0 \<longleftrightarrow> map tolower a = map tolower b"
  by (simp add: strcasecmp_def)

lemma init_formats_select_step:
  "init_formats_select (f # fs) format i =
     (if format_matches f format then Some i else init_formats_select fs format (Suc i))"
  by (simp add: format_matches_def strcasecmp_zero split: option.split)

lemma init_formats_select_None:
  "init_formats_select fs format i = None \<longleftrightarrow> (\<forall>f \<in> set fs. \<not> format_matches f format)"
  by (induction fs arbitrary: i)
    (simp_all add: init_formats_select_step del: init_formats_select.simps(2))

lemma init_formats_select_Some:
  "init_formats_select fs format i = Some k \<longleftrightarrow>
     (i \<le> k \<and> k - i < length fs \<and> format_matches (fs ! (k - i)) format \<and>
      (\<forall>j < k - i. \<not> format_matches (fs ! j) format))"
proof (induction fs arbitrary: i)
  case Nil
  then show ?case by simp
next
  case (Cons f fs)
  show ?case
  proof (cases "format_matches f format")
    case True
    have "(\<forall>j < k - i. \<not> format_matches ((f # fs) ! j) format) \<longleftrightarrow> k - i = 0"
      using True by (cases "k - i") auto
    then show ?thesis
      using True by (auto simp: init_formats_select_step simp del: init_formats_select.simps)
  next
    case False
    have "init_formats_select (f # fs) format i = Some k \<longleftrightarrow>
        (Suc i \<le> k \<and> k - Suc i < length fs \<and> format_matches (fs ! (k - Suc i)) format \<and>
         (\<forall>j < k - Suc i. \<not> format_matches (fs ! j) format))"
      using False Cons.IH [of "Suc i"]
      by (simp add: init_formats_select_step del: init_formats_select.simps)
    also have "\<dots> \<longleftrightarrow> (i \<le> k \<and> k - i < length (f # fs) \<and>
         format_matches ((f # fs) ! (k - i)) format \<and>
         (\<forall>j < k - i. \<not> format_matches ((f # fs) ! j) format))"
    proof (cases "Suc i \<le> k")
      case True
      then obtain d where d: "k - i = Suc d" "k - Suc i = d"
        by (metis Suc_diff_le diff_Suc_Suc)
      have "(\<forall>j < Suc d. \<not> format_matches ((f # fs) ! j) format) \<longleftrightarrow>
            (\<forall>j < d. \<not> format_matches (fs ! j) format)"
        using False by (auto simp: less_Suc_eq_0_disj)
      then show ?thesis using True d by auto
    next
      case nle: False
      show ?thesis
      proof (cases "i \<le> k")
        case True
        then have "k = i" using nle by simp
        then show ?thesis using False by simp
      next
        case False
        then show ?thesis by simp
      qed
    qed
    finally show ?thesis .
  qed
qed

subsection \<open>The filter chain and its persistent cache\<close>

lemma load_calls_simps [simp]:
  "load_calls [] = 0"
  "load_calls (e # es) = (if is_load e then Suc (load_calls es) else load_calls es)"
  "load_calls (xs @ ys) = load_calls xs + load_calls ys"
  by (simp_all add: load_calls_def)

lemma cf_root_dump_filter [simp]: "cf_root (cmd\<lparr>dump_filter := d\<rparr>) = cf_root cmd"
  by (simp add: cf_root_def)

lemma cf_timestamp_dump_filter [simp]: "cf_timestamp (cmd\<lparr>dump_filter := d\<rparr>) = cf_timestamp cmd"
  by (simp add: cf_timestamp_def)

lemma init_filter_components_dump_filter [simp]:
  "init_filter_components w (cmd\<lparr>dump_filter := d\<rparr>) = init_filter_components w cmd"
  by (simp add: init_filter_components_def Let_def)

lemma init_filter_components_no_load:
  "load_calls (snd (init_filter_components w cmd)) = 0"
  by (simp add: init_filter_components_def Let_def split: option.split)

lemma init_filter_components_no_persistent:
  "Persistent_filter_create p r \<notin> set (snd (init_filter_components w cmd))"
  by (simp add: init_filter_components_def Let_def split: option.split)

lemma init_filter_components_None:
  "fst (init_filter_components w cmd) = None \<longleftrightarrow>
     (\<not> lvm_type_filter_create w (proc_dir cmd) (find_config_node (cf_root cmd) ''devices/types'') \<or>
      (case find_config_node (cf_root cmd) ''devices/filter'' of
         None \<Rightarrow> False
       | Some cn \<Rightarrow>
           \<not> regex_filter_create w cn \<or>
           \<not> composite_filter_create w
               [Regex_filter cn,
                Type_filter (proc_dir cmd) (find_config_node (cf_root cmd) ''devices/types'')]))"
  by (simp add: init_filter_components_def Let_def split: option.split)

text \<open>The path of the cache file: \<open>devices/cache\<close>, by default \<open><sys_dir>/.cache\<close>.\<close>

lemma init_filters_cases:
  obtains
    (components) tr where "init_filter_components w cmd = (None, tr)"
      "init_filters w cmd = (False, cmd\<lparr>dump_filter := False\<rparr>, tr)"
  | (overflow) f3 tr where "init_filter_components w cmd = (Some f3, tr)"
      "\<not> length (sys_dir cmd @ ''/.cache'') < PATH_MAX"
      "init_filters w cmd = (False, cmd\<lparr>dump_filter := False\<rparr>,
         tr @ [Log_error ''Persistent cache filename too long ('%s/.cache').'' [S (sys_dir cmd)]])"
  | (persistent) f3 tr where "init_filter_components w cmd = (Some f3, tr)"
      "length (sys_dir cmd @ ''/.cache'') < PATH_MAX"
      "\<not> persistent_filter_create w f3
          (find_config_str_dflt (cf_root cmd) ''devices/cache'' (sys_dir cmd @ ''/.cache''))"
      "init_filters w cmd = (False, cmd\<lparr>dump_filter := False\<rparr>,
         tr @ [Persistent_filter_create
                 (find_config_str_dflt (cf_root cmd) ''devices/cache'' (sys_dir cmd @ ''/.cache''))
                 False,
               Log_error ''Failed to create persistent device filter'' []])"
  | (built) f3 tr where "init_filter_components w cmd = (Some f3, tr)"
      "length (sys_dir cmd @ ''/.cache'') < PATH_MAX"
      "persistent_filter_create w f3
          (find_config_str_dflt (cf_root cmd) ''devices/cache'' (sys_dir cmd @ ''/.cache''))"
      "init_filters w cmd =
         (True,
          cmd\<lparr>dump_filter :=
                 (find_config_int (cf_root cmd) ''devices/write_cache_state'' 1 \<noteq> 0
                  \<and> sys_dir cmd \<noteq> []),
               filter_ptr := Some (Persistent_filter f3
                 (find_config_str_dflt (cf_root cmd) ''devices/cache'' (sys_dir cmd @ ''/.cache'')))\<rparr>,
          tr @ [Persistent_filter_create
                  (find_config_str_dflt (cf_root cmd) ''devices/cache'' (sys_dir cmd @ ''/.cache''))
                  True,
                Stat (find_config_str_dflt (cf_root cmd) ''devices/cache'' (sys_dir cmd @ ''/.cache''))
                  (stat w (find_config_str_dflt (cf_root cmd) ''devices/cache''
                     (sys_dir cmd @ ''/.cache'')))]
             @ (case stat w (find_config_str_dflt (cf_root cmd) ''devices/cache''
                               (sys_dir cmd @ ''/.cache'')) of
                  Stat_ok mtime \<Rightarrow>
                    if mtime > cf_timestamp cmd
                    then if \<not> persistent_filter_load w (Persistent_filter f3
                              (find_config_str_dflt (cf_root cmd) ''devices/cache''
                                 (sys_dir cmd @ ''/.cache'')))
                         then [Persistent_filter_load False,
                               Log_verbose ''Failed to load existing device cache from %s''
                                 [S (find_config_str_dflt (cf_root cmd) ''devices/cache''
                                       (sys_dir cmd @ ''/.cache''))]]
                         else [Persistent_filter_load True]
                    else []
                | _ \<Rightarrow> []))"
proof (cases "init_filter_components w cmd")
  case (Pair r tr)
  show ?thesis
  proof (cases r)
    case None
    then show ?thesis using Pair components by (simp add: init_filters_def)
  next
    case (Some f3)
    note f3 = Some
    show ?thesis
    proof (cases "length (sys_dir cmd @ ''/.cache'') < PATH_MAX")
      case False
      then show ?thesis using Pair f3 overflow [of f3 tr]
        by (simp add: init_filters_def lvm_snprintf_def)
    next
      case True
      note fits = True
      show ?thesis
      proof (cases "persistent_filter_create w f3
          (find_config_str_dflt (cf_root cmd) ''devices/cache'' (sys_dir cmd @ ''/.cache''))")
        case False
        then show ?thesis using Pair f3 fits persistent [of f3 tr]
          by (simp add: init_filters_def lvm_snprintf_def)
      next
        case True
        have "init_filters w cmd = (True,
          cmd\<lparr>dump_filter :=
                 (find_config_int (cf_root cmd) ''devices/write_cache_state'' 1 \<noteq> 0
                  \<and> sys_dir cmd \<noteq> []),
               filter_ptr := Some (Persistent_filter f3
                 (find_config_str_dflt (cf_root cmd) ''devices/cache'' (sys_dir cmd @ ''/.cache'')))\<rparr>,
          tr @ [Persistent_filter_create
                  (find_config_str_dflt (cf_root cmd) ''devices/cache'' (sys_dir cmd @ ''/.cache''))
                  True,
                Stat (find_config_str_dflt (cf_root cmd) ''devices/cache'' (sys_dir cmd @ ''/.cache''))
                  (stat w (find_config_str_dflt (cf_root cmd) ''devices/cache''
                     (sys_dir cmd @ ''/.cache'')))]
             @ (case stat w (find_config_str_dflt (cf_root cmd) ''devices/cache''
                               (sys_dir cmd @ ''/.cache'')) of
                  Stat_ok mtime \<Rightarrow>
                    if mtime > cf_timestamp cmd
                    then if \<not> persistent_filter_load w (Persistent_filter f3
                              (find_config_str_dflt (cf_root cmd) ''devices/cache''
                                 (sys_dir cmd @ ''/.cache'')))
                         then [Persistent_filter_load False,
                               Log_verbose ''Failed to load existing device cache from %s''
                                 [S (find_config_str_dflt (cf_root cmd) ''devices/cache''
                                       (sys_dir cmd @ ''/.cache''))]]
                         else [Persistent_filter_load True]
                    else []
                | _ \<Rightarrow> []))"
          using Pair f3 fits True
          by (simp add: init_filters_def lvm_snprintf_def Let_def split: stat_result.split)
        then show ?thesis using Pair f3 fits True built [of f3 tr] by blast
      qed
    qed
  qed
qed

lemma init_filters_load_count:
  "load_calls (snd (snd (init_filters w cmd))) =
     (if fst (init_filters w cmd) \<and>
         (case stat w (find_config_str_dflt (cf_root cmd) ''devices/cache''
                         (sys_dir cmd @ ''/.cache'')) of
            Stat_ok mtime \<Rightarrow> mtime > cf_timestamp cmd
          | _ \<Rightarrow> False)
      then 1 else 0)"
  using init_filter_components_no_load [of w cmd]
  by (cases w cmd rule: init_filters_cases) (simp_all split: stat_result.split)

lemma init_filters_fatal_iff:
  "fst (init_filters w cmd) =
     (case fst (init_filter_components w cmd) of
        None \<Rightarrow> False
      | Some f3 \<Rightarrow>
          length (sys_dir cmd @ ''/.cache'') < PATH_MAX \<and>
          persistent_filter_create w f3
            (find_config_str_dflt (cf_root cmd) ''devices/cache'' (sys_dir cmd @ ''/.cache'')))"
  by (cases w cmd rule: init_filters_cases) simp_all

lemma init_filter_components_events:
  "e \<in> set (snd (init_filter_components w cmd)) \<Longrightarrow>
     e \<noteq> Persistent_filter_load r \<and> e \<noteq> Persistent_filter_create p r \<and> e \<noteq> Stat p sr"
  by (auto simp: init_filter_components_def Let_def split: option.splits if_splits)

lemma init_filters_load_failure:
  assumes "Persistent_filter_load False \<in> set (snd (snd (init_filters w cmd)))"
  shows "fst (init_filters w cmd) \<and>
     (\<exists>f3 p. filter_ptr (fst (snd (init_filters w cmd))) = Some (Persistent_filter f3 p) \<and>
        Log_verbose ''Failed to load existing device cache from %s'' [S p]
          \<in> set (snd (snd (init_filters w cmd))))"
proof (cases w cmd rule: init_filters_cases)
  case (components tr)
  then show ?thesis using assms init_filter_components_events [of _ w cmd] by auto
next
  case (overflow f3 tr)
  then show ?thesis using assms init_filter_components_events [of _ w cmd] by auto
next
  case (persistent f3 tr)
  then show ?thesis using assms init_filter_components_events [of _ w cmd] by auto
next
  case (built f3 tr)
  then show ?thesis using assms init_filter_components_events [of _ w cmd]
    by (auto split: stat_result.splits if_splits)
qed

lemma init_filters_overflow:
  assumes "PATH_MAX \<le> length (sys_dir cmd) + 7"
  shows "\<not> fst (init_filters w cmd) \<and>
         Persistent_filter_create p r \<notin> set (snd (snd (init_filters w cmd)))"
  using assms init_filter_components_events [of "Persistent_filter_create p r" w cmd]
  by (cases w cmd rule: init_filters_cases) auto
subsection \<open>The exits of \<open>create_toolcontext\<close>\<close>

lemma create_toolcontext_cases [case_names malloc env dir config process dev filters pool formats success]:
  obtains
    (malloc) "\<not> dbg_malloc w"
      "create_toolcontext b w a gl =
         (None, gl, create_start_trace b w
            @ [Dbg_malloc False, Log_error ''Failed to allocate command context'' []])"
  | (env) cmd1 tr1 where "dbg_malloc w"
      "get_env_vars w (create_start_cmd b a) = (False, cmd1, tr1)"
      "create_toolcontext b w a gl =
         (None, gl, create_start_trace b w @ [Dbg_malloc True] @ tr1 @ [Dbg_free])"
  | (dir) cmd1 tr1 where "dbg_malloc w"
      "get_env_vars w (create_start_cmd b a) = (True, cmd1, tr1)"
      "sys_dir cmd1 \<noteq> []" "\<not> create_dir w (sys_dir cmd1)"
      "create_toolcontext b w a gl =
         (None, gl, create_start_trace b w @ [Dbg_malloc True] @ tr1
            @ [Create_dir (sys_dir cmd1) False] @ [Dbg_free])"
  | (config) cmd1 tr1 cmd2 tr2 where "dbg_malloc w"
      "get_env_vars w (create_start_cmd b a) = (True, cmd1, tr1)"
      "sys_dir cmd1 = [] \<or> create_dir w (sys_dir cmd1)"
      "init_config w cmd1 = (False, cmd2, tr2)"
      "create_toolcontext b w a gl =
         (None, gl, create_start_trace b w @ [Dbg_malloc True] @ tr1 @ create_dir_trace cmd1
            @ tr2 @ [Dbg_free])"
  | (process) cmd1 tr1 cmd2 tr2 cmd3 gl3 tr3 cmd4 tr4 where "dbg_malloc w"
      "get_env_vars w (create_start_cmd b a) = (True, cmd1, tr1)"
      "sys_dir cmd1 = [] \<or> create_dir w (sys_dir cmd1)"
      "init_config w cmd1 = (True, cmd2, tr2)"
      "init_logging b w cmd2 gl = (cmd3, gl3, tr3)"
      "process_config b w cmd3 = (False, cmd4, tr4)"
      "create_toolcontext b w a gl =
         (None, gl3, create_start_trace b w @ [Dbg_malloc True] @ tr1 @ create_dir_trace cmd1
            @ tr2 @ tr3 @ tr4 @ [Dbg_free])"
  | (dev) cmd1 tr1 cmd2 tr2 cmd3 gl3 tr3 cmd4 tr4 tr5 where "dbg_malloc w"
      "get_env_vars w (create_start_cmd b a) = (True, cmd1, tr1)"
      "sys_dir cmd1 = [] \<or> create_dir w (sys_dir cmd1)"
      "init_config w cmd1 = (True, cmd2, tr2)"
      "init_logging b w cmd2 gl = (cmd3, gl3, tr3)"
      "process_config b w cmd3 = (True, cmd4, tr4)"
      "init_dev_cache w cmd4 = (False, tr5)"
      "create_toolcontext b w a gl =
         (None, gl3, create_start_trace b w @ [Dbg_malloc True] @ tr1 @ create_dir_trace cmd1
            @ tr2 @ tr3 @ tr4 @ tr5 @ [Dbg_free])"
  | (filters) cmd1 tr1 cmd2 tr2 cmd3 gl3 tr3 cmd4 tr4 tr5 cmd6 tr6 where "dbg_malloc w"
      "get_env_vars w (create_start_cmd b a) = (True, cmd1, tr1)"
      "sys_dir cmd1 = [] \<or> create_dir w (sys_dir cmd1)"
      "init_config w cmd1 = (True, cmd2, tr2)"
      "init_logging b w cmd2 gl = (cmd3, gl3, tr3)"
      "process_config b w cmd3 = (True, cmd4, tr4)"
      "init_dev_cache w cmd4 = (True, tr5)"
      "init_filters w cmd4 = (False, cmd6, tr6)"
      "create_toolcontext b w a gl =
         (None, gl3, create_start_trace b w @ [Dbg_malloc True] @ tr1 @ create_dir_trace cmd1
            @ tr2 @ tr3 @ tr4 @ tr5 @ tr6 @ [Dbg_free])"
  | (pool) cmd1 tr1 cmd2 tr2 cmd3 gl3 tr3 cmd4 tr4 tr5 cmd6 tr6 where "dbg_malloc w"
      "get_env_vars w (create_start_cmd b a) = (True, cmd1, tr1)"
      "sys_dir cmd1 = [] \<or> create_dir w (sys_dir cmd1)"
      "init_config w cmd1 = (True, cmd2, tr2)"
      "init_logging b w cmd2 gl = (cmd3, gl3, tr3)"
      "process_config b w cmd3 = (True, cmd4, tr4)"
      "init_dev_cache w cmd4 = (True, tr5)"
      "init_filters w cmd4 = (True, cmd6, tr6)"
      "\<not> pool_create w (4 * 1024)"
      "create_toolcontext b w a gl =
         (None, gl3, create_start_trace b w @ [Dbg_malloc True] @ tr1 @ create_dir_trace cmd1
            @ tr2 @ tr3 @ tr4 @ tr5 @ tr6
            @ [Pool_create (4 * 1024) False, Log_error ''Command memory pool creation failed'' []])"
  | (formats) cmd1 tr1 cmd2 tr2 cmd3 gl3 tr3 cmd4 tr4 tr5 cmd6 tr6 cmd7 tr7 where "dbg_malloc w"
      "get_env_vars w (create_start_cmd b a) = (True, cmd1, tr1)"
      "sys_dir cmd1 = [] \<or> create_dir w (sys_dir cmd1)"
      "init_config w cmd1 = (True, cmd2, tr2)"
      "init_logging b w cmd2 gl = (cmd3, gl3, tr3)"
      "process_config b w cmd3 = (True, cmd4, tr4)"
      "init_dev_cache w cmd4 = (True, tr5)"
      "init_filters w cmd4 = (True, cmd6, tr6)"
      "pool_create w (4 * 1024)"
      "init_formats b w (cmd6\<lparr>mem := True\<rparr>) = (False, cmd7, tr7)"
      "create_toolcontext b w a gl =
         (None, gl3, create_start_trace b w @ [Dbg_malloc True] @ tr1 @ create_dir_trace cmd1
            @ tr2 @ tr3 @ tr4 @ tr5 @ tr6 @ [Pool_create (4 * 1024) True] @ tr7 @ [Dbg_free])"
  | (success) cmd1 tr1 cmd2 tr2 cmd3 gl3 tr3 cmd4 tr4 tr5 cmd6 tr6 cmd7 tr7 where "dbg_malloc w"
      "get_env_vars w (create_start_cmd b a) = (True, cmd1, tr1)"
      "sys_dir cmd1 = [] \<or> create_dir w (sys_dir cmd1)"
      "init_config w cmd1 = (True, cmd2, tr2)"
      "init_logging b w cmd2 gl = (cmd3, gl3, tr3)"
      "process_config b w cmd3 = (True, cmd4, tr4)"
      "init_dev_cache w cmd4 = (True, tr5)"
      "init_filters w cmd4 = (True, cmd6, tr6)"
      "pool_create w (4 * 1024)"
      "init_formats b w (cmd6\<lparr>mem := True\<rparr>) = (True, cmd7, tr7)"
      "create_toolcontext b w a gl =
         (Some (cmd7\<lparr>current_settings := default_settings cmd7\<rparr>), gl3,
          create_start_trace b w @ [Dbg_malloc True] @ tr1 @ create_dir_trace cmd1
            @ tr2 @ tr3 @ tr4 @ tr5 @ tr6 @ [Pool_create (4 * 1024) True] @ tr7)"
proof -
  obtain ok1 cmd1 tr1 where e1: "get_env_vars w (create_start_cmd b a) = (ok1, cmd1, tr1)"
    by (cases "get_env_vars w (create_start_cmd b a)")
  obtain ok2 cmd2 tr2 where e2: "init_config w cmd1 = (ok2, cmd2, tr2)"
    by (cases "init_config w cmd1")
  obtain cmd3 gl3 tr3 where e3: "init_logging b w cmd2 gl = (cmd3, gl3, tr3)"
    by (cases "init_logging b w cmd2 gl")
  obtain ok4 cmd4 tr4 where e4: "process_config b w cmd3 = (ok4, cmd4, tr4)"
    by (cases "process_config b w cmd3")
  obtain ok5 tr5 where e5: "init_dev_cache w cmd4 = (ok5, tr5)"
    by (cases "init_dev_cache w cmd4")
  obtain ok6 cmd6 tr6 where e6: "init_filters w cmd4 = (ok6, cmd6, tr6)"
    by (cases "init_filters w cmd4")
  obtain ok7 cmd7 tr7 where e7: "init_formats b w (cmd6\<lparr>mem := True\<rparr>) = (ok7, cmd7, tr7)"
    by (cases "init_formats b w (cmd6\<lparr>mem := True\<rparr>)")
  note defs = create_toolcontext_def Let_def error_exit_def create_start_trace_def
    create_start_cmd_def [symmetric] create_dir_trace_def
  consider "\<not> dbg_malloc w"
    | "dbg_malloc w" "\<not> ok1"
    | "dbg_malloc w" "ok1" "sys_dir cmd1 \<noteq> []" "\<not> create_dir w (sys_dir cmd1)"
    | "dbg_malloc w" "ok1" "sys_dir cmd1 = [] \<or> create_dir w (sys_dir cmd1)" "\<not> ok2"
    | "dbg_malloc w" "ok1" "sys_dir cmd1 = [] \<or> create_dir w (sys_dir cmd1)" "ok2" "\<not> ok4"
    | "dbg_malloc w" "ok1" "sys_dir cmd1 = [] \<or> create_dir w (sys_dir cmd1)" "ok2" "ok4" "\<not> ok5"
    | "dbg_malloc w" "ok1" "sys_dir cmd1 = [] \<or> create_dir w (sys_dir cmd1)" "ok2" "ok4" "ok5"
      "\<not> ok6"
    | "dbg_malloc w" "ok1" "sys_dir cmd1 = [] \<or> create_dir w (sys_dir cmd1)" "ok2" "ok4" "ok5"
      "ok6" "\<not> pool_create w (4 * 1024)"
    | "dbg_malloc w" "ok1" "sys_dir cmd1 = [] \<or> create_dir w (sys_dir cmd1)" "ok2" "ok4" "ok5"
      "ok6" "pool_create w (4 * 1024)" "\<not> ok7"
    | "dbg_malloc w" "ok1" "sys_dir cmd1 = [] \<or> create_dir w (sys_dir cmd1)" "ok2" "ok4" "ok5"
      "ok6" "pool_create w (4 * 1024)" "ok7"
    by blast
  then show thesis
  proof cases
    case 1
    then show ?thesis by (intro malloc) (simp_all add: defs)
  next
    case 2
    then show ?thesis using e1 by (intro env [of cmd1 tr1]) (simp_all add: defs)
  next
    case 3
    then show ?thesis using e1 by (intro dir [of cmd1 tr1]) (simp_all add: defs)
  next
    case 4
    then show ?thesis using e1 e2 by (intro config [of cmd1 tr1 cmd2 tr2]) (auto simp: defs)
  next
    case 5
    then show ?thesis using e1 e2 e3 e4
      by (intro process [of cmd1 tr1 cmd2 tr2 cmd3 gl3 tr3 cmd4 tr4]) (auto simp: defs)
  next
    case 6
    then show ?thesis using e1 e2 e3 e4 e5
      by (intro dev [of cmd1 tr1 cmd2 tr2 cmd3 gl3 tr3 cmd4 tr4 tr5]) (auto simp: defs)
  next
    case 7
    then show ?thesis using e1 e2 e3 e4 e5 e6
      by (intro filters [of cmd1 tr1 cmd2 tr2 cmd3 gl3 tr3 cmd4 tr4 tr5 cmd6 tr6]) (auto simp: defs)
  next
    case 8
    then show ?thesis using e1 e2 e3 e4 e5 e6
      by (intro pool [of cmd1 tr1 cmd2 tr2 cmd3 gl3 tr3 cmd4 tr4 tr5 cmd6 tr6]) (auto simp: defs)
  next
    case 9
    then show ?thesis using e1 e2 e3 e4 e5 e6 e7
      by (intro formats [of cmd1 tr1 cmd2 tr2 cmd3 gl3 tr3 cmd4 tr4 tr5 cmd6 tr6 cmd7 tr7])
        (auto simp: defs)
  next
    case 10
    then show ?thesis using e1 e2 e3 e4 e5 e6 e7
      by (intro success [of cmd1 tr1 cmd2 tr2 cmd3 gl3 tr3 cmd4 tr4 tr5 cmd6 tr6 cmd7 tr7])
        (auto simp: defs)
  qed
qed
lemma cf_root_default_settings [simp]: "cf_root (cmd\<lparr>default_settings := ds\<rparr>) = cf_root cmd"
  by (simp add: cf_root_def)

lemma cf_root_dev_dir [simp]: "cf_root (cmd\<lparr>dev_dir := d\<rparr>) = cf_root cmd"
  by (simp add: cf_root_def)

lemma cf_root_proc_dir [simp]: "cf_root (cmd\<lparr>proc_dir := d\<rparr>) = cf_root cmd"
  by (simp add: cf_root_def)

lemma cf_root_updates [simp]:
  "cf_root (cmd\<lparr>sys_dir := sd\<rparr>) = cf_root cmd"
  "cf_root (cmd\<lparr>current_settings := cs\<rparr>) = cf_root cmd"
  "cf_root (cmd\<lparr>filter_ptr := fp\<rparr>) = cf_root cmd"
  "cf_root (cmd\<lparr>mem := m\<rparr>) = cf_root cmd"
  "cf_root (cmd\<lparr>formats := fs\<rparr>) = cf_root cmd"
  "cf_root (cmd\<lparr>fmt_backup := fb\<rparr>) = cf_root cmd"
  by (simp_all add: cf_root_def)

lemma init_logging_eq:
  "init_logging b w cmd gl =
     (cmd\<lparr>default_settings := (default_settings cmd)
        \<lparr>syslog := find_config_int (cf_root cmd) ''log/syslog'' (DEFAULT_SYSLOG b),
         debug := find_config_int (cf_root cmd) ''log/level'' (DEFAULT_LOGLEVEL b),
         verbose := find_config_int (cf_root cmd) ''log/verbose'' (DEFAULT_VERBOSE b),
         msg_prefix := find_config_str_dflt (cf_root cmd) ''log/prefix'' (DEFAULT_MSG_PREFIX b),
         cmd_name := find_config_int (cf_root cmd) ''log/command_names'' (DEFAULT_CMD_NAME b),
         test := find_config_int (cf_root cmd) ''global/test'' 0\<rparr>\<rparr>,
      (case find_config_str (cf_root cmd) ''log/file'' None of
         Some log_file \<Rightarrow>
           if fopen w log_file
                (if find_config_int (cf_root cmd) ''log/overwrite'' (DEFAULT_OVERWRITE b) \<noteq> 0
                 then ''w'' else ''a'')
           then Some log_file else None
       | None \<Rightarrow> gl),
      (if find_config_int (cf_root cmd) ''log/syslog'' (DEFAULT_SYSLOG b) \<noteq> 1
       then [Fin_syslog] else [])
      @ (if find_config_int (cf_root cmd) ''log/syslog'' (DEFAULT_SYSLOG b) > 1
         then [Init_syslog (find_config_int (cf_root cmd) ''log/syslog'' (DEFAULT_SYSLOG b))]
         else [])
      @ [Init_debug (find_config_int (cf_root cmd) ''log/level'' (DEFAULT_LOGLEVEL b)),
         Init_verbose (find_config_int (cf_root cmd) ''log/verbose'' (DEFAULT_VERBOSE b)),
         Init_indent (find_config_int (cf_root cmd) ''log/indent'' (DEFAULT_INDENT b)),
         Init_msg_prefix (find_config_str_dflt (cf_root cmd) ''log/prefix'' (DEFAULT_MSG_PREFIX b)),
         Init_cmd_name (find_config_int (cf_root cmd) ''log/command_names'' (DEFAULT_CMD_NAME b))]
      @ (case find_config_str (cf_root cmd) ''log/file'' None of
           Some log_file \<Rightarrow>
             if \<not> fopen w log_file
                  (if find_config_int (cf_root cmd) ''log/overwrite'' (DEFAULT_OVERWRITE b) \<noteq> 0
                   then ''w'' else ''a'')
             then [Fopen log_file
                     (if find_config_int (cf_root cmd) ''log/overwrite'' (DEFAULT_OVERWRITE b) \<noteq> 0
                      then ''w'' else ''a'') False,
                   Log_error ''Couldn't open log file %s'' [S log_file]]
             else [Fopen log_file
                     (if find_config_int (cf_root cmd) ''log/overwrite'' (DEFAULT_OVERWRITE b) \<noteq> 0
                      then ''w'' else ''a'') True,
                   Init_log]
         | None \<Rightarrow> [])
      @ [Time, Log_verbose ''Logging initialised at %s'' [I (time_now w)]]
      @ (if DEVMAPPER_SUPPORT b then [Dm_log_init] else []))"
proof (cases "find_config_str (cf_root cmd) ''log/file'' None")
  case None
  then show ?thesis
    by (simp add: init_logging_def Let_def cong: if_cong split del: if_split)
next
  case (Some log_file)
  then show ?thesis
    by (cases "fopen w log_file
                (if find_config_int (cf_root cmd) ''log/overwrite'' (DEFAULT_OVERWRITE b) \<noteq> 0
                 then ''w'' else ''a'')")
      (simp_all add: init_logging_def Let_def cong: if_cong split del: if_split)
qed
lemma process_config_eq:
  assumes "um = find_config_int (cf_root cmd) ''global/umask'' (DEFAULT_UMASK b)"
    and "dd = find_config_str_dflt (cf_root cmd) ''devices/dir'' (DEFAULT_DEV_DIR b) @ ''/''"
    and "pd = find_config_str_dflt (cf_root cmd) ''global/proc'' (DEFAULT_PROC_DIR b)"
    and "act = find_config_int (cf_root cmd) ''global/activation'' (DEFAULT_ACTIVATION b)"
    and "sfx = find_config_int (cf_root cmd) ''global/suffix'' (DEFAULT_SUFFIX b)"
    and "un = find_config_str_dflt (cf_root cmd) ''global/units'' (DEFAULT_UNITS b)"
    and "tr_umask = Umask (to_mode_t um) #
           (if to_mode_t (umask_prev w) \<noteq> to_mode_t um
            then [Log_verbose ''Set umask to %04o'' [I um]] else [])"
    and "tr_dm = (if DEVMAPPER_SUPPORT b then [Dm_set_dev_dir dd] else [])"
  shows "process_config b w cmd =
    (if \<not> length dd < PATH_MAX
     then (False,
           cmd\<lparr>default_settings := (default_settings cmd)\<lparr>umask := um\<rparr>,
               dev_dir := take (PATH_MAX - 1) dd\<rparr>,
           tr_umask @ [Log_error ''Device directory given in config file too long'' []])
     else if \<not> length pd < PATH_MAX
     then (False,
           cmd\<lparr>default_settings := (default_settings cmd)\<lparr>umask := um\<rparr>,
               dev_dir := dd, proc_dir := take (PATH_MAX - 1) pd\<rparr>,
           tr_umask @ tr_dm @ [Log_error ''Device directory given in config file too long'' []])
     else (fst (units_to_bytes w un) \<noteq> 0,
           cmd\<lparr>default_settings := (default_settings cmd)
                  \<lparr>umask := um, activation := act, suffix := sfx,
                   unit_factor := fst (units_to_bytes w un),
                   unit_type := snd (units_to_bytes w un)\<rparr>,
               dev_dir := dd, proc_dir := pd\<rparr>,
           tr_umask @ tr_dm @ [Set_activation act, Units_to_bytes un]
             @ (if fst (units_to_bytes w un) = 0
                then [Log_error ''Invalid units specification'' []] else [])))"
proof (cases "length dd < PATH_MAX")
  case False
  then show ?thesis using assms(1,2,7)
    by (simp add: process_config_def Let_def lvm_snprintf_def cong: if_cong split del: if_split)
next
  case dd: True
  show ?thesis
  proof (cases "length pd < PATH_MAX")
    case False
    then show ?thesis using dd assms(1,2,3,7,8)
      by (simp add: process_config_def Let_def lvm_snprintf_def cong: if_cong split del: if_split)
  next
    case pd: True
    show ?thesis
    proof (cases "units_to_bytes w un")
      case (Pair factor utype)
      then show ?thesis using dd pd assms
        by (cases "factor = 0")
          (simp_all add: process_config_def Let_def lvm_snprintf_def cong: if_cong
            split del: if_split)
    qed
  qed
qed

lemmas process_config_eq' = process_config_eq [OF refl refl refl refl refl refl refl refl]

lemma get_env_vars_release: "filter is_release (snd (snd (get_env_vars w cmd))) = []"
  by (simp add: get_env_vars_def split: option.split prod.split)

lemma get_env_vars_load: "load_calls (snd (snd (get_env_vars w cmd))) = 0"
  by (simp add: get_env_vars_def split: option.split prod.split)

lemma get_env_vars_frame:
  "fst (snd (get_env_vars w cmd)) = cmd\<lparr>sys_dir := sys_dir (fst (snd (get_env_vars w cmd)))\<rparr>"
  by (simp add: get_env_vars_def split: option.split prod.split)

lemma init_config_release:
  "filter is_release (snd (snd (init_config w cmd))) =
     (if fst (init_config w cmd) \<or> \<not> create_config_tree w then [] else [Destroy_config_tree])"
  by (simp add: init_config_def Let_def lvm_snprintf_def split: stat_result.split option.split)

lemma init_config_load: "load_calls (snd (snd (init_config w cmd))) = 0"
  by (simp add: init_config_def Let_def lvm_snprintf_def split: stat_result.split option.split)

lemma init_config_frame:
  "fst (snd (init_config w cmd)) = cmd\<lparr>cf := cf (fst (snd (init_config w cmd)))\<rparr>"
  by (simp add: init_config_def Let_def lvm_snprintf_def split: stat_result.split option.split)

lemma init_logging_release: "filter is_release (snd (snd (init_logging b w cmd gl))) = []"
  by (simp add: init_logging_eq split: option.split)

lemma init_logging_load: "load_calls (snd (snd (init_logging b w cmd gl))) = 0"
  by (simp add: init_logging_eq split: option.split)

lemma init_logging_frame:
  "fst (init_logging b w cmd gl) =
     cmd\<lparr>default_settings := default_settings (fst (init_logging b w cmd gl))\<rparr>"
  by (simp add: init_logging_eq)

lemma process_config_release: "filter is_release (snd (snd (process_config b w cmd))) = []"
  by (simp add: process_config_eq')

lemma process_config_load: "load_calls (snd (snd (process_config b w cmd))) = 0"
  by (simp add: process_config_eq')

lemma process_config_frame:
  "fst (snd (process_config b w cmd)) =
     cmd\<lparr>default_settings := default_settings (fst (snd (process_config b w cmd))),
         dev_dir := dev_dir (fst (snd (process_config b w cmd))),
         proc_dir := proc_dir (fst (snd (process_config b w cmd)))\<rparr>"
  by (simp add: process_config_eq')

lemma init_dev_cache_loop_release: "filter is_release (snd (init_dev_cache_loop w cn)) = []"
  by (induction cn) (simp_all add: case_prod_unfold split: config_value.split)

lemma init_dev_cache_loop_load: "load_calls (snd (init_dev_cache_loop w cn)) = 0"
  by (induction cn) (simp_all add: case_prod_unfold split: config_value.split)

lemma init_dev_cache_release: "filter is_release (snd (init_dev_cache w cmd)) = []"
  using init_dev_cache_loop_release [of w]
  by (simp add: init_dev_cache_def Let_def case_prod_unfold split: option.split)

lemma init_dev_cache_load: "load_calls (snd (init_dev_cache w cmd)) = 0"
  using init_dev_cache_loop_load [of w]
  by (simp add: init_dev_cache_def Let_def case_prod_unfold split: option.split)

lemma init_filter_components_release:
  "filter is_release (snd (init_filter_components w cmd)) = []"
  by (simp add: init_filter_components_def Let_def split: option.split)

lemma init_filters_release: "filter is_release (snd (snd (init_filters w cmd))) = []"
  using init_filter_components_release [of w cmd]
  by (cases w cmd rule: init_filters_cases) (simp_all split: stat_result.split)

lemma init_filters_frame:
  "fst (snd (init_filters w cmd)) =
     cmd\<lparr>dump_filter := dump_filter (fst (snd (init_filters w cmd))),
         filter_ptr := filter_ptr (fst (snd (init_filters w cmd)))\<rparr>"
  by (cases w cmd rule: init_filters_cases) simp_all
subsection \<open>The format registry\<close>

lemma init_formats_lvm1_eq:
  "init_formats_lvm1 b w cmd =
     (if LVM1_INTERNAL b
      then (case init_lvm1_format w of
              None \<Rightarrow> (False, cmd, [Init_lvm1_format False])
            | Some f \<Rightarrow> (True, cmd\<lparr>formats := formats cmd @ [f\<lparr>library := None\<rparr>]\<rparr>,
                         [Init_lvm1_format True]))
      else (True, cmd, []))"
  by (simp add: init_formats_lvm1_def list_add_def split: option.split)

lemma init_formats_libs_frame_ex:
  "\<exists>fs. fst (snd (init_formats_libs w cn cmd)) = cmd\<lparr>formats := fs\<rparr>"
proof (induction cn arbitrary: cmd)
  case Nil
  show ?case by (rule exI [of _ "formats cmd"]) simp
next
  case (Cons cv rest)
  have keep: "\<exists>fs. cmd = cmd\<lparr>formats := fs\<rparr>"
    by (rule exI [of _ "formats cmd"]) simp
  show ?case
  proof (cases cv)
    case (CFG_STRING str)
    have step: "\<exists>fs. fst (snd (init_formats_libs w rest
        (cmd\<lparr>formats := list_add (formats cmd) (f\<lparr>library := Some l\<rparr>)\<rparr>))) = cmd\<lparr>formats := fs\<rparr>"
      for f l
      using Cons.IH [of "cmd\<lparr>formats := list_add (formats cmd) (f\<lparr>library := Some l\<rparr>)\<rparr>"]
      by simp
    show ?thesis
      using keep step by (simp add: CFG_STRING case_prod_unfold split: option.split)
  qed (simp_all add: keep)
qed

lemma init_formats_libs_frame:
  "fst (snd (init_formats_libs w cn cmd)) =
     cmd\<lparr>formats := formats (fst (snd (init_formats_libs w cn cmd)))\<rparr>"
proof -
  obtain fs where "fst (snd (init_formats_libs w cn cmd)) = cmd\<lparr>formats := fs\<rparr>"
    using init_formats_libs_frame_ex by blast
  then show ?thesis by simp
qed

lemma init_formats_libs_formats:
  "\<exists>dyn. formats (fst (snd (init_formats_libs w cn cmd))) = formats cmd @ dyn \<and>
         (\<forall>f \<in> set dyn. library f \<noteq> None)"
proof (induction cn arbitrary: cmd)
  case Nil
  show ?case by simp
next
  case (Cons cv rest)
  show ?case
  proof (cases cv)
    case (CFG_STRING str)
    show ?thesis
    proof (cases "load_shared_library w str")
      case None
      then show ?thesis using CFG_STRING by simp
    next
      case (Some l)
      note l = Some
      show ?thesis
      proof (cases "dlsym w l ''init_format''")
        case None
        then show ?thesis using CFG_STRING l by simp
      next
        case (Some fn)
        note fn = Some
        show ?thesis
        proof (cases fn)
          case None
          then show ?thesis using CFG_STRING l fn by simp
        next
          case (Some f)
          obtain dyn where
            "formats (fst (snd (init_formats_libs w rest
                (cmd\<lparr>formats := list_add (formats cmd) (f\<lparr>library := Some l\<rparr>)\<rparr>)))) =
              formats (cmd\<lparr>formats := list_add (formats cmd) (f\<lparr>library := Some l\<rparr>)\<rparr>) @ dyn"
            "\<forall>g \<in> set dyn. library g \<noteq> None"
            using Cons.IH by blast
          then have "formats (fst (snd (init_formats_libs w (cv # rest) cmd))) =
              formats cmd @ (f\<lparr>library := Some l\<rparr> # dyn) \<and>
              (\<forall>g \<in> set (f\<lparr>library := Some l\<rparr> # dyn). library g \<noteq> None)"
            using CFG_STRING l fn Some by (simp add: case_prod_unfold list_add_def)
          then show ?thesis by blast
        qed
      qed
    qed
  qed simp_all
qed

lemma init_formats_libs_release:
  "filter is_release (snd (snd (init_formats_libs w cn cmd))) = [] \<or>
   \<not> fst (init_formats_libs w cn cmd) \<and>
     (\<exists>l. filter is_release (snd (snd (init_formats_libs w cn cmd))) = [Dlclose l])"
proof (induction cn arbitrary: cmd)
  case Nil
  show ?case by simp
next
  case (Cons cv rest)
  show ?case
  proof (cases cv)
    case (CFG_STRING str)
    show ?thesis
      using Cons.IH
      by (auto simp: CFG_STRING case_prod_unfold split: option.split)
  qed simp_all
qed

lemma init_formats_libs_load: "load_calls (snd (snd (init_formats_libs w cn cmd))) = 0"
proof (induction cn arbitrary: cmd)
  case Nil
  show ?case by simp
next
  case (Cons cv rest)
  show ?case
    using Cons.IH by (cases cv) (simp_all add: case_prod_unfold split: option.split)
qed

lemma init_formats_libdl_frame:
  "fst (snd (init_formats_libdl b w cmd)) =
     cmd\<lparr>formats := formats (fst (snd (init_formats_libdl b w cmd)))\<rparr>"
  using init_formats_libs_frame [of w _ cmd]
  by (simp add: init_formats_libdl_def split: option.split)

lemma init_formats_libdl_formats:
  "\<exists>dyn. formats (fst (snd (init_formats_libdl b w cmd))) = formats cmd @ dyn \<and>
         (\<forall>f \<in> set dyn. library f \<noteq> None)"
  using init_formats_libs_formats [of w _ cmd]
  by (simp add: init_formats_libdl_def split: option.split)

lemma init_formats_libdl_release:
  "filter is_release (snd (snd (init_formats_libdl b w cmd))) = [] \<or>
   \<not> fst (init_formats_libdl b w cmd) \<and>
     (\<exists>l. filter is_release (snd (snd (init_formats_libdl b w cmd))) = [Dlclose l])"
  using init_formats_libs_release [of w _ cmd]
  by (simp add: init_formats_libdl_def split: option.split)

lemma init_formats_libdl_load: "load_calls (snd (snd (init_formats_libdl b w cmd))) = 0"
  using init_formats_libs_load [of w _ cmd]
  by (simp add: init_formats_libdl_def split: option.split)
lemma init_formats_eq:
  assumes "init_formats_lvm1 b w cmd = (ok1, c1, t1)"
    and "init_formats_libdl b w c1 = (ok2, c2, t2)"
    and "fmtname = find_config_str_dflt (cf_root cmd) ''global/format'' (DEFAULT_FORMAT b)"
  shows "init_formats b w cmd =
    (if \<not> ok1 then (False, c1, Label_init # t1)
     else if \<not> ok2 then (False, c2, Label_init # t1 @ t2)
     else case create_text_format w of
            None \<Rightarrow> (False, c2, Label_init # t1 @ t2 @ [Create_text_format False])
          | Some txt \<Rightarrow>
              (case init_formats_select (formats c2 @ [txt\<lparr>library := None\<rparr>]) fmtname 0 of
                 Some i \<Rightarrow>
                   (True,
                    c2\<lparr>formats := formats c2 @ [txt\<lparr>library := None\<rparr>],
                       fmt_backup := Some (length (formats c2)),
                       default_settings := (default_settings c2)\<lparr>fmt := Some i\<rparr>\<rparr>,
                    Label_init # t1 @ t2 @ [Create_text_format True])
               | None \<Rightarrow>
                   (False,
                    c2\<lparr>formats := formats c2 @ [txt\<lparr>library := None\<rparr>],
                       fmt_backup := Some (length (formats c2))\<rparr>,
                    Label_init # t1 @ t2 @ [Create_text_format True,
                      Log_error ''_init_formats: Default format (%s) not found'' [S fmtname]])))"
proof -
  have "c1 = cmd\<lparr>formats := formats c1\<rparr>"
    using assms(1) by (auto simp: init_formats_lvm1_eq split: if_splits option.splits)
  moreover have "c2 = c1\<lparr>formats := formats c2\<rparr>"
    using assms(2) init_formats_libdl_frame [of b w c1] by simp
  ultimately have "cf_root c2 = cf_root cmd"
    by (metis cf_root_updates(5))
  then show ?thesis
    using assms
    by (simp add: init_formats_def Let_def list_add_def split: option.split)
qed

lemma init_formats_release:
  "filter is_release (snd (snd (init_formats b w cmd))) = [] \<or>
   \<not> fst (init_formats b w cmd) \<and>
     (\<exists>l. filter is_release (snd (snd (init_formats b w cmd))) = [Dlclose l])"
proof -
  obtain ok1 c1 t1 where e1: "init_formats_lvm1 b w cmd = (ok1, c1, t1)"
    by (cases "init_formats_lvm1 b w cmd")
  obtain ok2 c2 t2 where e2: "init_formats_libdl b w c1 = (ok2, c2, t2)"
    by (cases "init_formats_libdl b w c1")
  have r1: "filter is_release t1 = []"
    using e1 by (auto simp: init_formats_lvm1_eq split: if_splits option.splits)
  have r2: "filter is_release t2 = [] \<or> \<not> ok2 \<and> (\<exists>l. filter is_release t2 = [Dlclose l])"
    using init_formats_libdl_release [of b w c1] e2 by simp
  show ?thesis
    using r1 r2 by (auto simp: init_formats_eq [OF e1 e2 refl] split: option.split)
qed

lemma init_formats_load: "load_calls (snd (snd (init_formats b w cmd))) = 0"
proof -
  obtain ok1 c1 t1 where e1: "init_formats_lvm1 b w cmd = (ok1, c1, t1)"
    by (cases "init_formats_lvm1 b w cmd")
  obtain ok2 c2 t2 where e2: "init_formats_libdl b w c1 = (ok2, c2, t2)"
    by (cases "init_formats_libdl b w c1")
  have r1: "load_calls t1 = 0"
    using e1 by (auto simp: init_formats_lvm1_eq split: if_splits option.splits)
  have r2: "load_calls t2 = 0"
    using init_formats_libdl_load [of b w c1] e2 by simp
  show ?thesis
    using r1 r2 by (simp add: init_formats_eq [OF e1 e2 refl] split: option.split)
qed

lemma init_formats_frame:
  "fst (snd (init_formats b w cmd)) =
     cmd\<lparr>formats := formats (fst (snd (init_formats b w cmd))),
         fmt_backup := fmt_backup (fst (snd (init_formats b w cmd))),
         default_settings := (default_settings cmd)
           \<lparr>fmt := fmt (default_settings (fst (snd (init_formats b w cmd))))\<rparr>\<rparr>"
proof -
  obtain ok1 c1 t1 where e1: "init_formats_lvm1 b w cmd = (ok1, c1, t1)"
    by (cases "init_formats_lvm1 b w cmd")
  obtain ok2 c2 t2 where e2: "init_formats_libdl b w c1 = (ok2, c2, t2)"
    by (cases "init_formats_libdl b w c1")
  have "c1 = cmd\<lparr>formats := formats c1\<rparr>"
    using e1 by (auto simp: init_formats_lvm1_eq split: if_splits option.splits)
  then obtain fs1 where c1: "c1 = cmd\<lparr>formats := fs1\<rparr>" ..
  have "c2 = c1\<lparr>formats := formats c2\<rparr>"
    using e2 init_formats_libdl_frame [of b w c1] by simp
  then have "c2 = cmd\<lparr>formats := formats c2\<rparr>"
    by (simp add: c1)
  then obtain fs2 where c2: "c2 = cmd\<lparr>formats := fs2\<rparr>" ..
  show ?thesis
    unfolding init_formats_eq [OF e1 e2 refl] c1 c2
    by (simp split: option.split)
qed
subsection \<open>The failure paths of \<open>create_toolcontext\<close>\<close>

lemma step_releases:
  "get_env_vars w c = (ok, c', t) \<Longrightarrow> filter is_release t = []"
  "init_config w c = (ok, c', t) \<Longrightarrow>
     filter is_release t = (if ok \<or> \<not> create_config_tree w then [] else [Destroy_config_tree])"
  "init_logging b w c g = (c', g', t) \<Longrightarrow> filter is_release t = []"
  "process_config b w c = (ok, c', t) \<Longrightarrow> filter is_release t = []"
  "init_dev_cache w c = (ok, t) \<Longrightarrow> filter is_release t = []"
  "init_filters w c = (ok, c', t) \<Longrightarrow> filter is_release t = []"
  "init_formats b w c = (ok, c', t) \<Longrightarrow>
     filter is_release t = [] \<or> \<not> ok \<and> (\<exists>l. filter is_release t = [Dlclose l])"
  using get_env_vars_release [of w c] init_config_release [of w c]
    init_logging_release [of b w c g] process_config_release [of b w c]
    init_dev_cache_release [of w c] init_filters_release [of w c]
    init_formats_release [of b w c]
  by simp_all

lemma start_release [simp]:
  "filter is_release (create_start_trace b w) = []"
  "filter is_release (create_dir_trace c) = []"
  by (simp_all add: create_start_trace_def create_dir_trace_def)

lemma no_release_mem: "filter is_release t = [] \<Longrightarrow> is_release e \<Longrightarrow> e \<notin> set t"
  by (auto simp: filter_empty_conv)

lemma one_release_mem:
  "filter is_release t = [r] \<Longrightarrow> is_release e \<Longrightarrow> e \<noteq> r \<Longrightarrow> e \<notin> set t"
proof
  assume a: "filter is_release t = [r]" "is_release e" "e \<noteq> r" "e \<in> set t"
  have "set (filter is_release t) = {r}" using a(1) by simp
  moreover have "e \<in> set (filter is_release t)" using a(2,4) by simp
  ultimately show False using a(3) by blast
qed

lemma early_no_init_debug:
  "Init_debug v \<notin> set (create_start_trace b w)"
  "Init_debug v \<notin> set (create_dir_trace c)"
  "get_env_vars w c = (ok, c', t) \<Longrightarrow> Init_debug v \<notin> set t"
  "init_config w c = (ok, c', t) \<Longrightarrow> Init_debug v \<notin> set t"
  by (auto simp: create_start_trace_def create_dir_trace_def get_env_vars_def
      init_config_def Let_def lvm_snprintf_def split: option.splits stat_result.splits if_splits)

lemma step_no_destroy:
  "Destroy_config_tree \<notin> set (create_start_trace b w)"
  "Destroy_config_tree \<notin> set (create_dir_trace c)"
  "get_env_vars w c = (ok, c', t) \<Longrightarrow> Destroy_config_tree \<notin> set t"
  "init_config w c = (True, c', t) \<Longrightarrow> Destroy_config_tree \<notin> set t"
  "init_logging b w c g = (c', g', t) \<Longrightarrow> Destroy_config_tree \<notin> set t"
  "process_config b w c = (ok, c', t) \<Longrightarrow> Destroy_config_tree \<notin> set t"
  "init_dev_cache w c = (ok, t) \<Longrightarrow> Destroy_config_tree \<notin> set t"
  "init_filters w c = (ok, c', t) \<Longrightarrow> Destroy_config_tree \<notin> set t"
  "init_formats b w c = (ok, c', t) \<Longrightarrow> Destroy_config_tree \<notin> set t"
proof -
  show "Destroy_config_tree \<notin> set (create_start_trace b w)"
    "Destroy_config_tree \<notin> set (create_dir_trace c)"
    by (simp_all add: create_start_trace_def create_dir_trace_def)
  show "get_env_vars w c = (ok, c', t) \<Longrightarrow> Destroy_config_tree \<notin> set t"
    by (rule no_release_mem [OF step_releases(1)]) simp_all
  show "init_config w c = (True, c', t) \<Longrightarrow> Destroy_config_tree \<notin> set t"
    using step_releases(2) [of w c True c' t] by (intro no_release_mem) simp_all
  show "init_logging b w c g = (c', g', t) \<Longrightarrow> Destroy_config_tree \<notin> set t"
    by (rule no_release_mem [OF step_releases(3)]) simp_all
  show "process_config b w c = (ok, c', t) \<Longrightarrow> Destroy_config_tree \<notin> set t"
    by (rule no_release_mem [OF step_releases(4)]) simp_all
  show "init_dev_cache w c = (ok, t) \<Longrightarrow> Destroy_config_tree \<notin> set t"
    by (rule no_release_mem [OF step_releases(5)]) simp_all
  show "init_filters w c = (ok, c', t) \<Longrightarrow> Destroy_config_tree \<notin> set t"
    by (rule no_release_mem [OF step_releases(6)]) simp_all
  show "init_formats b w c = (ok, c', t) \<Longrightarrow> Destroy_config_tree \<notin> set t"
    using step_releases(7) [of b w c ok c' t]
      no_release_mem [of t Destroy_config_tree]
      one_release_mem [of t _ Destroy_config_tree]
    by auto
qed

text \<open>
  C1, as the code has it. Whenever \<open>create_toolcontext\<close> fails after the context was
  allocated, on any branch but the failed arena allocation, the run ends in the one call of
  the \<open>error:\<close> label, \<open>dbg_free(cmd)\<close>. Nothing else is given back there: before that
  call the run released nothing, or only what the failing step released itself (the
  configuration tree inside \<open>_init_config\<close>, a library without the factory symbol inside
  \<open>_init_formats\<close>); once logging was initialised the configuration tree is never destroyed.
\<close>

theorem create_toolcontext_error_path:
  assumes "create_toolcontext b w a gl = (None, gl', tr)"
    and "dbg_malloc w"
    and "Pool_create (4 * 1024) False \<notin> set tr"
  shows "tr \<noteq> [] \<and> last tr = Dbg_free \<and>
     (filter is_release (butlast tr) = [] \<or>
      filter is_release (butlast tr) = [Destroy_config_tree] \<or>
      (\<exists>l. filter is_release (butlast tr) = [Dlclose l])) \<and>
     ((\<exists>v. Init_debug v \<in> set tr) \<longrightarrow> Destroy_config_tree \<notin> set tr)"
proof (cases rule: create_toolcontext_cases [of w b a gl])
  case malloc
  then show ?thesis using assms by simp
next
  case (env cmd1 tr1)
  then show ?thesis
    using assms by (auto simp: step_releases early_no_init_debug butlast_append)
next
  case (dir cmd1 tr1)
  then show ?thesis
    using assms by (auto simp: step_releases early_no_init_debug butlast_append)
next
  case (config cmd1 tr1 cmd2 tr2)
  then show ?thesis
    using assms by (auto simp: step_releases early_no_init_debug butlast_append)
next
  case (process cmd1 tr1 cmd2 tr2 cmd3 gl3 tr3 cmd4 tr4)
  then show ?thesis
    using assms by (simp add: step_releases step_no_destroy butlast_append)
next
  case (dev cmd1 tr1 cmd2 tr2 cmd3 gl3 tr3 cmd4 tr4 tr5)
  then show ?thesis
    using assms by (simp add: step_releases step_no_destroy butlast_append)
next
  case (filters cmd1 tr1 cmd2 tr2 cmd3 gl3 tr3 cmd4 tr4 tr5 cmd6 tr6)
  then show ?thesis
    using assms by (simp add: step_releases step_no_destroy butlast_append)
next
  case (pool cmd1 tr1 cmd2 tr2 cmd3 gl3 tr3 cmd4 tr4 tr5 cmd6 tr6)
  then show ?thesis using assms by simp
next
  case (formats cmd1 tr1 cmd2 tr2 cmd3 gl3 tr3 cmd4 tr4 tr5 cmd6 tr6 cmd7 tr7)
  have "filter is_release tr7 = [] \<or> (\<exists>l. filter is_release tr7 = [Dlclose l])"
    using step_releases(7) [OF formats(10)] by blast
  then show ?thesis
    using formats assms by (auto simp: step_releases step_no_destroy butlast_append)
next
  case (success cmd1 tr1 cmd2 tr2 cmd3 gl3 tr3 cmd4 tr4 tr5 cmd6 tr6 cmd7 tr7)
  then show ?thesis using assms by simp
qed

lemmas eval_defs = create_toolcontext_def Let_def get_env_vars_def zero_cmd_def zero_settings_def
  error_exit_def init_config_def lvm_snprintf_def PATH_MAX_def init_logging_def cf_root_def
  empty_config_tree_def find_config_int_def find_config_str_def find_config_node_def
  find_config_str_dflt_def process_config_def to_mode_t_def init_dev_cache_def init_filters_def
  init_filter_components_def cf_timestamp_def config_file_timestamp_def init_formats_def
  init_formats_lvm1_def init_formats_libdl_def list_add_def strcasecmp_def tolower_def
  example_build_def example_world_def lvm1_format_def text_format_def

lemma create_no_type_filter:
  "create_toolcontext example_build no_type_filter_world [] None =
     (None, None,
      [Setlocale True, Init_syslog 8, Dbg_malloc True,
       Create_dir ''/etc/lvm'' True, Create_config_tree True,
       Stat ''/etc/lvm/lvm.conf'' Stat_ENOENT, Init_debug 0, Init_verbose 0,
       Init_indent 1, Init_msg_prefix ''  '', Init_cmd_name 0, Time,
       Log_verbose ''Logging initialised at %s'' [I 0], Dm_log_init,
       Umask 63, Log_verbose ''Set umask to %04o'' [I 63],
       Dm_set_dev_dir ''/dev/'', Set_activation 1, Units_to_bytes ''h'',
       Dev_cache_init True, Dev_cache_add_dir ''/dev'' True,
       Log_verbose ''device/scan not in config file: Defaulting to /dev'' [],
       Lvm_type_filter_create False, Dbg_free])"
  by (simp add: eval_defs no_type_filter_world_def)

lemma create_no_pool:
  "create_toolcontext example_build no_pool_world [] None =
     (None, None,
      [Setlocale True, Init_syslog 8, Dbg_malloc True,
       Create_dir ''/etc/lvm'' True, Create_config_tree True,
       Stat ''/etc/lvm/lvm.conf'' Stat_ENOENT, Init_debug 0, Init_verbose 0,
       Init_indent 1, Init_msg_prefix ''  '', Init_cmd_name 0, Time,
       Log_verbose ''Logging initialised at %s'' [I 0], Dm_log_init,
       Umask 63, Log_verbose ''Set umask to %04o'' [I 63],
       Dm_set_dev_dir ''/dev/'', Set_activation 1, Units_to_bytes ''h'',
       Dev_cache_init True, Dev_cache_add_dir ''/dev'' True,
       Log_verbose ''device/scan not in config file: Defaulting to /dev'' [],
       Lvm_type_filter_create True,
       Log_debug ''devices/filter not found in config file: no regex filter installed'' [],
       Persistent_filter_create ''/etc/lvm/.cache'' True,
       Stat ''/etc/lvm/.cache'' Stat_ENOENT,
       Pool_create 4096 False, Log_error ''Command memory pool creation failed'' []])"
  by (simp add: eval_defs no_pool_world_def)

theorem create_toolcontext_error_path_witness:
  "dbg_malloc no_type_filter_world \<and>
   fst (create_toolcontext example_build no_type_filter_world [] None) = None \<and>
   last (snd (snd (create_toolcontext example_build no_type_filter_world [] None))) = Dbg_free \<and>
   filter is_release
     (butlast (snd (snd (create_toolcontext example_build no_type_filter_world [] None)))) = []"
proof -
  have m: "dbg_malloc no_type_filter_world"
    by (simp add: no_type_filter_world_def example_world_def)
  show ?thesis
    using m create_toolcontext_error_path [OF create_no_type_filter m]
    by (simp add: create_no_type_filter)
qed

text \<open>
  C1, as the claim words it, fails twice. When the type filter cannot be built, the
  configuration tree and the device cache, both constructed by then, are not released: the
  cleanup frees the context structure only. When the arena cannot be allocated, the function
  returns without reaching the cleanup at all, and not even the context structure is freed.
\<close>

theorem create_toolcontext_cleanup_incomplete:
  "fst (create_toolcontext example_build no_type_filter_world [] None) = None \<and>
   Create_config_tree True
     \<in> set (snd (snd (create_toolcontext example_build no_type_filter_world [] None))) \<and>
   Destroy_config_tree
     \<notin> set (snd (snd (create_toolcontext example_build no_type_filter_world [] None))) \<and>
   Dev_cache_init True
     \<in> set (snd (snd (create_toolcontext example_build no_type_filter_world [] None))) \<and>
   Dev_cache_exit
     \<notin> set (snd (snd (create_toolcontext example_build no_type_filter_world [] None))) \<and>
   fst (create_toolcontext example_build no_pool_world [] None) = None \<and>
   Dbg_malloc True \<in> set (snd (snd (create_toolcontext example_build no_pool_world [] None))) \<and>
   Dbg_free \<notin> set (snd (snd (create_toolcontext example_build no_pool_world [] None)))"
  by (simp add: create_no_type_filter create_no_pool)

subsection \<open>What the returned context depends on\<close>

lemma init_dev_cache_loop_cong:
  "dev_cache_add_dir w' = dev_cache_add_dir w \<Longrightarrow>
     init_dev_cache_loop w' cn = init_dev_cache_loop w cn"
  by (induction cn) (simp_all split: config_value.split)

lemma init_formats_libs_cong:
  "load_shared_library w' = load_shared_library w \<Longrightarrow> dlsym w' = dlsym w \<Longrightarrow>
     init_formats_libs w' cn cmd = init_formats_libs w cn cmd"
  by (induction cn arbitrary: cmd) (simp_all split: config_value.split option.split)

lemma init_filters_cmd:
  "fst (snd (init_filters w cmd)) =
     (case fst (init_filter_components w cmd) of
        None \<Rightarrow> cmd\<lparr>dump_filter := False\<rparr>
      | Some f3 \<Rightarrow>
          if fst (init_filters w cmd)
          then cmd\<lparr>dump_filter :=
                     (find_config_int (cf_root cmd) ''devices/write_cache_state'' 1 \<noteq> 0
                      \<and> sys_dir cmd \<noteq> []),
                   filter_ptr := Some (Persistent_filter f3
                     (find_config_str_dflt (cf_root cmd) ''devices/cache''
                        (sys_dir cmd @ ''/.cache'')))\<rparr>
          else cmd\<lparr>dump_filter := False\<rparr>)"
  by (cases w cmd rule: init_filters_cases) simp_all

text \<open>
  Two worlds that agree on every call but \<open>setlocale\<close>, \<open>fopen\<close>, \<open>time\<close>, the previous
  umask and \<open>persistent_filter_load\<close> make \<open>create_toolcontext\<close> return the same context.
\<close>

lemma create_toolcontext_result_cong:
  assumes "getenv w' = getenv w" "dbg_malloc w' = dbg_malloc w" "create_dir w' = create_dir w"
    "create_config_tree w' = create_config_tree w" "stat w' = stat w"
    "read_config_file w' = read_config_file w" "units_to_bytes w' = units_to_bytes w"
    "dev_cache_init w' = dev_cache_init w" "dev_cache_add_dir w' = dev_cache_add_dir w"
    "lvm_type_filter_create w' = lvm_type_filter_create w"
    "regex_filter_create w' = regex_filter_create w"
    "composite_filter_create w' = composite_filter_create w"
    "persistent_filter_create w' = persistent_filter_create w"
    "pool_create w' = pool_create w" "init_lvm1_format w' = init_lvm1_format w"
    "load_shared_library w' = load_shared_library w" "dlsym w' = dlsym w"
    "create_text_format w' = create_text_format w"
  shows "fst (create_toolcontext b w' a gl) = fst (create_toolcontext b w a gl)"
proof -
  have env: "get_env_vars w' c = get_env_vars w c" for c
    unfolding get_env_vars_def assms ..
  have config: "init_config w' c = init_config w c" for c
    unfolding init_config_def assms ..
  have logging: "fst (init_logging b w' c g) = fst (init_logging b w c g)" for c g
    by (simp add: init_logging_eq)
  have process: "fst (process_config b w' c) = fst (process_config b w c)"
    "fst (snd (process_config b w' c)) = fst (snd (process_config b w c))" for c
    using assms by (simp_all add: process_config_eq')
  have dev: "init_dev_cache w' c = init_dev_cache w c" for c
    unfolding init_dev_cache_def init_dev_cache_loop_cong [of w' w, OF assms(9)] assms ..
  have components: "init_filter_components w' c = init_filter_components w c" for c
    unfolding init_filter_components_def assms ..
  have filters: "fst (init_filters w' c) = fst (init_filters w c)"
    "fst (snd (init_filters w' c)) = fst (snd (init_filters w c))" for c
    unfolding init_filters_cmd init_filters_fatal_iff components assms by (rule refl)+
  have libdl: "init_formats_libdl b w' c = init_formats_libdl b w c" for c
    unfolding init_formats_libdl_def init_formats_libs_cong [of w' w, OF assms(16,17)] ..
  have formats: "init_formats b w' c = init_formats b w c" for c
    unfolding init_formats_def init_formats_lvm1_def libdl assms ..
  obtain ok1 cmd1 tr1 where e1: "get_env_vars w (create_start_cmd b a) = (ok1, cmd1, tr1)"
    by (cases "get_env_vars w (create_start_cmd b a)")
  obtain ok2 cmd2 tr2 where e2: "init_config w cmd1 = (ok2, cmd2, tr2)"
    by (cases "init_config w cmd1")
  obtain cmd3 gl3 tr3 where e3: "init_logging b w cmd2 gl = (cmd3, gl3, tr3)"
    by (cases "init_logging b w cmd2 gl")
  obtain gl3' tr3' where e3': "init_logging b w' cmd2 gl = (cmd3, gl3', tr3')"
    using logging [of cmd2 gl] e3 by (cases "init_logging b w' cmd2 gl") simp
  obtain ok4 cmd4 tr4 where e4: "process_config b w cmd3 = (ok4, cmd4, tr4)"
    by (cases "process_config b w cmd3")
  obtain tr4' where e4': "process_config b w' cmd3 = (ok4, cmd4, tr4')"
    using process [of cmd3] e4 by (cases "process_config b w' cmd3") simp
  obtain ok5 tr5 where e5: "init_dev_cache w cmd4 = (ok5, tr5)"
    by (cases "init_dev_cache w cmd4")
  obtain ok6 cmd6 tr6 where e6: "init_filters w cmd4 = (ok6, cmd6, tr6)"
    by (cases "init_filters w cmd4")
  obtain tr6' where e6': "init_filters w' cmd4 = (ok6, cmd6, tr6')"
    using filters [of cmd4] e6 by (cases "init_filters w' cmd4") simp
  obtain ok7 cmd7 tr7 where e7: "init_formats b w (cmd6\<lparr>mem := True\<rparr>) = (ok7, cmd7, tr7)"
    by (cases "init_formats b w (cmd6\<lparr>mem := True\<rparr>)")
  show ?thesis
    using e1 e2 e3 e3' e4 e4' e5 e6 e6' e7 assms(2,3,14)
    by (simp add: create_toolcontext_def Let_def error_exit_def env config dev formats
        create_start_cmd_def [symmetric])
qed
subsection \<open>Failures of filter initialisation\<close>

text \<open>
  C7. \<open>_init_filters\<close> fails exactly when a filter layer cannot be constructed (the type
  filter; with a \<open>devices/filter\<close> node the regex or the composite filter; the persistent
  filter) or the default cache pathname does not fit its buffer. What
  \<open>persistent_filter_load\<close> returns changes neither the result of \<open>_init_filters\<close> nor the
  context \<open>create_toolcontext\<close> returns; and when the load fails, the step still succeeds
  with the persistent filter installed, the failure being logged.
\<close>

theorem init_filters_failure_causes:
  "(\<not> fst (init_filters w cmd)) =
     (\<not> lvm_type_filter_create w (proc_dir cmd) (find_config_node (cf_root cmd) ''devices/types'') \<or>
      (case find_config_node (cf_root cmd) ''devices/filter'' of
         None \<Rightarrow> False
       | Some cn \<Rightarrow>
           \<not> regex_filter_create w cn \<or>
           \<not> composite_filter_create w
               [Regex_filter cn,
                Type_filter (proc_dir cmd) (find_config_node (cf_root cmd) ''devices/types'')]) \<or>
      PATH_MAX \<le> length (sys_dir cmd @ ''/.cache'') \<or>
      (\<exists>f3. fst (init_filter_components w cmd) = Some f3 \<and>
            \<not> persistent_filter_create w f3 (lvm_cache_path cmd))) \<and>
   fst (init_filters (w\<lparr>persistent_filter_load := l\<rparr>) cmd) = fst (init_filters w cmd) \<and>
   fst (create_toolcontext b (w\<lparr>persistent_filter_load := l\<rparr>) a gl)
     = fst (create_toolcontext b w a gl) \<and>
   (Persistent_filter_load False \<in> set (snd (snd (init_filters w cmd))) \<longrightarrow>
      fst (init_filters w cmd) \<and>
      (\<exists>f3 p. filter_ptr (fst (snd (init_filters w cmd))) = Some (Persistent_filter f3 p) \<and>
         Log_verbose ''Failed to load existing device cache from %s'' [S p]
           \<in> set (snd (snd (init_filters w cmd)))))"
proof (intro conjI)
  show "(\<not> fst (init_filters w cmd)) =
     (\<not> lvm_type_filter_create w (proc_dir cmd) (find_config_node (cf_root cmd) ''devices/types'') \<or>
      (case find_config_node (cf_root cmd) ''devices/filter'' of
         None \<Rightarrow> False
       | Some cn \<Rightarrow>
           \<not> regex_filter_create w cn \<or>
           \<not> composite_filter_create w
               [Regex_filter cn,
                Type_filter (proc_dir cmd) (find_config_node (cf_root cmd) ''devices/types'')]) \<or>
      PATH_MAX \<le> length (sys_dir cmd @ ''/.cache'') \<or>
      (\<exists>f3. fst (init_filter_components w cmd) = Some f3 \<and>
            \<not> persistent_filter_create w f3 (lvm_cache_path cmd)))"
    using init_filter_components_None [of w cmd]
    by (cases "fst (init_filter_components w cmd)")
      (auto simp: init_filters_fatal_iff lvm_cache_path_def)
  have components:
    "init_filter_components (w\<lparr>persistent_filter_load := l\<rparr>) cmd = init_filter_components w cmd"
    by (simp add: init_filter_components_def Let_def split: option.split)
  show "fst (init_filters (w\<lparr>persistent_filter_load := l\<rparr>) cmd) = fst (init_filters w cmd)"
    by (simp add: init_filters_fatal_iff components split: option.split)
  show "fst (create_toolcontext b (w\<lparr>persistent_filter_load := l\<rparr>) a gl)
     = fst (create_toolcontext b w a gl)"
    by (rule create_toolcontext_result_cong) simp_all
  show "Persistent_filter_load False \<in> set (snd (snd (init_filters w cmd))) \<longrightarrow>
      fst (init_filters w cmd) \<and>
      (\<exists>f3 p. filter_ptr (fst (snd (init_filters w cmd))) = Some (Persistent_filter f3 p) \<and>
         Log_verbose ''Failed to load existing device cache from %s'' [S p]
           \<in> set (snd (snd (init_filters w cmd))))"
    using init_filters_load_failure by blast
qed

lemma init_filters_bad_cache:
  "init_filters bad_cache_world configured_cmd =
     (True,
      configured_cmd\<lparr>dump_filter := True,
        filter_ptr := Some (Persistent_filter (Type_filter ''/proc'' None) ''/tmp/c'')\<rparr>,
      [Lvm_type_filter_create True,
       Log_debug ''devices/filter not found in config file: no regex filter installed'' [],
       Persistent_filter_create ''/tmp/c'' True, Stat ''/tmp/c'' (Stat_ok 200),
       Persistent_filter_load False,
       Log_verbose ''Failed to load existing device cache from %s'' [S ''/tmp/c'']])"
  by (simp add: eval_defs bad_cache_world_def configured_world_def configured_cmd_def
      example_cmd_def example_config_def)

theorem init_filters_failure_causes_witness:
  "Persistent_filter_load False \<in> set (snd (snd (init_filters bad_cache_world configured_cmd))) \<and>
   fst (init_filters bad_cache_world configured_cmd) \<and>
   fst (init_filters (bad_cache_world\<lparr>persistent_filter_load := (\<lambda>f. True)\<rparr>) configured_cmd)"
  using init_filters_failure_causes [of bad_cache_world configured_cmd "\<lambda>f. True"]
  by (simp add: init_filters_bad_cache)

subsection \<open>Overflow of the cache pathname\<close>

lemma init_config_overflow:
  assumes "sys_dir c \<noteq> []" "PATH_MAX \<le> length (sys_dir c) + 9"
  shows "\<not> fst (init_config w c)"
  using assms by (simp add: init_config_def lvm_snprintf_def)

lemma get_env_vars_sys_dir:
  assumes "getenv w ''LVM_SYSTEM_DIR'' = Some e" "get_env_vars w c = (True, c', t)"
  shows "sys_dir c' = e"
  using assms by (auto simp: get_env_vars_def lvm_snprintf_def split: if_splits)

text \<open>
  C9. \<open>_init_filters\<close> formats \<open><sys_dir>/.cache\<close> before it looks at \<open>devices/cache\<close>: when
  the system directory is so long that this pathname does not fit, the step fails whatever
  the configuration says, without ever creating the persistent filter. And no context is
  constructed when the environment sets a system directory of that length.
\<close>

theorem cache_path_overflow_fatal:
  "(PATH_MAX \<le> length (sys_dir cmd) + 7 \<longrightarrow>
      \<not> fst (init_filters w cmd) \<and>
      (\<forall>p r. Persistent_filter_create p r \<notin> set (snd (snd (init_filters w cmd))))) \<and>
   (getenv w ''LVM_SYSTEM_DIR'' = Some e \<and> PATH_MAX \<le> length e + 7 \<longrightarrow>
      fst (create_toolcontext b w a gl) = None)"
proof (intro conjI impI)
  assume "PATH_MAX \<le> length (sys_dir cmd) + 7"
  then show "\<not> fst (init_filters w cmd)"
    "\<forall>p r. Persistent_filter_create p r \<notin> set (snd (snd (init_filters w cmd)))"
    using init_filters_overflow [of cmd w] by blast+
next
  assume e: "getenv w ''LVM_SYSTEM_DIR'' = Some e \<and> PATH_MAX \<le> length e + 7"
  then have long: "e \<noteq> []" "PATH_MAX \<le> length e + 9"
    by (auto simp: PATH_MAX_def)
  have no_config: "\<not> fst (init_config w c)" if "get_env_vars w c0 = (True, c, t)" for c0 c t
    using init_config_overflow [of c w] get_env_vars_sys_dir [OF _ that] e long by simp
  show "fst (create_toolcontext b w a gl) = None"
    by (cases rule: create_toolcontext_cases [of w b a gl]) (use no_config in force)+
qed

lemma long_dir_facts:
  "PATH_MAX \<le> length (sys_dir long_dir_cmd) + 7"
  "find_config_str (cf_root long_dir_cmd) ''devices/cache'' None = Some ''/tmp/c''"
  "getenv long_dir_world ''LVM_SYSTEM_DIR'' = Some long_dir"
  "PATH_MAX \<le> length long_dir + 7"
  by (simp_all add: long_dir_cmd_def long_dir_def long_dir_world_def PATH_MAX_def
      configured_cmd_def example_config_def cf_root_def find_config_str_def find_config_node_def)

theorem cache_path_overflow_fatal_witness:
  "PATH_MAX \<le> length (sys_dir long_dir_cmd) + 7 \<and>
   find_config_str (cf_root long_dir_cmd) ''devices/cache'' None = Some ''/tmp/c'' \<and>
   \<not> fst (init_filters example_world long_dir_cmd) \<and>
   getenv long_dir_world ''LVM_SYSTEM_DIR'' = Some long_dir \<and>
   PATH_MAX \<le> length long_dir + 7 \<and>
   fst (create_toolcontext example_build long_dir_world [] None) = None"
  using cache_path_overflow_fatal [of long_dir_cmd example_world]
    cache_path_overflow_fatal [of long_dir_cmd long_dir_world long_dir example_build "[]" None]
    long_dir_facts
  by simp

subsection \<open>Successful construction\<close>

lemma create_toolcontext_success [consumes 1, case_names success]:
  assumes "create_toolcontext b w a gl = (Some cmd, gl', tr)"
  obtains cmd1 tr1 cmd2 tr2 cmd3 tr3 cmd4 tr4 tr5 cmd6 tr6 cmd7 tr7 where
      "get_env_vars w (create_start_cmd b a) = (True, cmd1, tr1)"
      "init_config w cmd1 = (True, cmd2, tr2)"
      "init_logging b w cmd2 gl = (cmd3, gl', tr3)"
      "process_config b w cmd3 = (True, cmd4, tr4)"
      "init_dev_cache w cmd4 = (True, tr5)"
      "init_filters w cmd4 = (True, cmd6, tr6)"
      "init_formats b w (cmd6\<lparr>mem := True\<rparr>) = (True, cmd7, tr7)"
      "cmd = cmd7\<lparr>current_settings := default_settings cmd7\<rparr>"
      "tr = create_start_trace b w @ [Dbg_malloc True] @ tr1 @ create_dir_trace cmd1
            @ tr2 @ tr3 @ tr4 @ tr5 @ tr6 @ [Pool_create (4 * 1024) True] @ tr7"
  using assms by (cases rule: create_toolcontext_cases [of w b a gl]) auto

text \<open>The fields of the context that are settled after each step.\<close>

lemma create_toolcontext_success_fields:
  assumes "get_env_vars w c0 = (True, cmd1, tr1)"
      "init_config w cmd1 = (True, cmd2, tr2)"
      "init_logging b w cmd2 gl = (cmd3, gl', tr3)"
      "process_config b w cmd3 = (True, cmd4, tr4)"
      "init_filters w cmd4 = (True, cmd6, tr6)"
      "init_formats b w (cmd6\<lparr>mem := True\<rparr>) = (True, cmd7, tr7)"
  shows "sys_dir cmd7 = sys_dir cmd1" "sys_dir cmd4 = sys_dir cmd1" "sys_dir cmd2 = sys_dir cmd1"
    "cf cmd7 = cf cmd2" "cf cmd4 = cf cmd2" "cf cmd3 = cf cmd2"
    "dump_filter cmd7 = dump_filter cmd6" "filter_ptr cmd7 = filter_ptr cmd6"
    "formats cmd6 = formats c0"
    "dev_dir cmd7 = dev_dir cmd4" "proc_dir cmd7 = proc_dir cmd4"
    "default_settings cmd7 =
       (default_settings cmd4)\<lparr>fmt := fmt (default_settings cmd7)\<rparr>"
    "default_settings cmd2 = default_settings c0"
    "cf cmd6 = cf cmd2"
proof -
  obtain x1 where c1: "cmd1 = c0\<lparr>sys_dir := x1\<rparr>"
    using get_env_vars_frame [of w c0] assms(1) by simp
  obtain x2 where c2: "cmd2 = cmd1\<lparr>cf := x2\<rparr>"
    using init_config_frame [of w cmd1] assms(2) by simp
  obtain x3 where c3: "cmd3 = cmd2\<lparr>default_settings := x3\<rparr>"
    using init_logging_frame [of b w cmd2 gl] assms(3) by simp
  obtain x4 y4 z4 where c4: "cmd4 = cmd3\<lparr>default_settings := x4, dev_dir := y4, proc_dir := z4\<rparr>"
    using process_config_frame [of b w cmd3] assms(4) by simp
  obtain x6 y6 where c6: "cmd6 = cmd4\<lparr>dump_filter := x6, filter_ptr := y6\<rparr>"
    using init_filters_frame [of w cmd4] assms(5) by simp
  obtain x7 y7 z7 where c7: "cmd7 = cmd6\<lparr>mem := True, formats := x7, fmt_backup := y7,
      default_settings := (default_settings cmd6)\<lparr>fmt := z7\<rparr>\<rparr>"
    using init_formats_frame [of b w "cmd6\<lparr>mem := True\<rparr>"] assms(6) by simp
  show "sys_dir cmd7 = sys_dir cmd1" "sys_dir cmd4 = sys_dir cmd1" "sys_dir cmd2 = sys_dir cmd1"
    "cf cmd7 = cf cmd2" "cf cmd4 = cf cmd2" "cf cmd3 = cf cmd2"
    "dump_filter cmd7 = dump_filter cmd6" "filter_ptr cmd7 = filter_ptr cmd6"
    "formats cmd6 = formats c0"
    "dev_dir cmd7 = dev_dir cmd4" "proc_dir cmd7 = proc_dir cmd4"
    "default_settings cmd7 =
       (default_settings cmd4)\<lparr>fmt := fmt (default_settings cmd7)\<rparr>"
    "default_settings cmd2 = default_settings c0"
    "cf cmd6 = cf cmd2"
    by (simp_all add: c1 c2 c3 c4 c6 c7)
qed

lemma cf_root_cf: "cf c = cf c' \<Longrightarrow> cf_root c = cf_root c'"
  by (simp add: cf_root_def)

lemma cf_timestamp_cf: "cf c = cf c' \<Longrightarrow> cf_timestamp c = cf_timestamp c'"
  by (simp add: cf_timestamp_def)

lemma lvm_cache_path_cong:
  "cf c = cf c' \<Longrightarrow> sys_dir c = sys_dir c' \<Longrightarrow> lvm_cache_path c = lvm_cache_path c'"
  by (simp add: lvm_cache_path_def cf_root_def)

lemma cache_newer_cong:
  "cf c = cf c' \<Longrightarrow> sys_dir c = sys_dir c' \<Longrightarrow> cache_newer w c = cache_newer w c'"
  by (simp add: cache_newer_def lvm_cache_path_cong [of c c'] cf_timestamp_cf [of c c']
      split: stat_result.split)

lemma start_load [simp]:
  "load_calls (create_start_trace b w) = 0" "load_calls (create_dir_trace c) = 0"
  by (simp_all add: create_start_trace_def create_dir_trace_def)

subsection \<open>Loading of the persistent cache\<close>

text \<open>
  C3. A run of \<open>_init_filters\<close> calls \<open>persistent_filter_load\<close> once if it builds the filter
  chain and \<open>stat\<close> on the cache file succeeds with a modification time strictly greater than
  the timestamp of the configuration, and never otherwise; so does every run of
  \<open>create_toolcontext\<close> that returns a context. In particular, with a cache file that is
  not strictly newer the persistent filter is installed without any load.
\<close>

theorem persistent_filter_load_rule:
  "load_calls (snd (snd (init_filters w c))) =
     (if fst (init_filters w c) \<and> cache_newer w c then 1 else 0) \<and>
   (create_toolcontext b w a gl = (Some cmd, gl', tr) \<longrightarrow>
      load_calls tr = (if cache_newer w cmd then 1 else 0) \<and>
      (\<exists>f3. filter_ptr cmd = Some (Persistent_filter f3 (lvm_cache_path cmd))))"
proof (rule conjI, goal_cases)
  case 1
  show ?case
    by (simp add: init_filters_load_count cache_newer_def lvm_cache_path_def)
next
  case 2
  show ?case
  proof
  assume "create_toolcontext b w a gl = (Some cmd, gl', tr)"
  then show "load_calls tr = (if cache_newer w cmd then 1 else 0) \<and>
      (\<exists>f3. filter_ptr cmd = Some (Persistent_filter f3 (lvm_cache_path cmd)))"
  proof (cases rule: create_toolcontext_success)
    case (success cmd1 tr1 cmd2 tr2 cmd3 tr3 cmd4 tr4 tr5 cmd6 tr6 cmd7 tr7)
    note fields = create_toolcontext_success_fields [OF success(1,2,3,4,6,7)]
    have same: "cf cmd = cf cmd4" "sys_dir cmd = sys_dir cmd4"
      using success(8) fields by simp_all
    have l6: "load_calls tr6 = (if cache_newer w cmd4 then 1 else 0)"
      using init_filters_load_count [of w cmd4] success(6)
      by (simp add: cache_newer_def lvm_cache_path_def)
    have others: "load_calls tr1 = 0" "load_calls tr2 = 0" "load_calls tr3 = 0"
      "load_calls tr4 = 0" "load_calls tr5 = 0" "load_calls tr7 = 0"
      using get_env_vars_load [of w "create_start_cmd b a"] init_config_load [of w cmd1]
        init_logging_load [of b w cmd2 gl] process_config_load [of b w cmd3]
        init_dev_cache_load [of w cmd4] init_formats_load [of b w "cmd6\<lparr>mem := True\<rparr>"]
        success
      by simp_all
    have f6: "\<exists>f3. filter_ptr cmd6 = Some (Persistent_filter f3 (lvm_cache_path cmd4))"
      using init_filters_cmd [of w cmd4] init_filters_fatal_iff [of w cmd4] success(6)
      by (cases "fst (init_filter_components w cmd4)") (auto simp: lvm_cache_path_def)
    show "load_calls tr = (if cache_newer w cmd then 1 else 0) \<and>
      (\<exists>f3. filter_ptr cmd = Some (Persistent_filter f3 (lvm_cache_path cmd)))"
      using l6 others f6 success(8,9) fields(8)
        cache_newer_cong [OF same] lvm_cache_path_cong [OF same]
      by simp
  qed
qed
qed
lemma create_example:
  "create_toolcontext example_build example_world [] None = (Some example_cmd, None, example_trace)"
  by (simp add: eval_defs example_cmd_def example_settings_def example_filter_def
      example_trace_def)

lemma init_filters_configured:
  "init_filters configured_world configured_cmd =
     (True,
      configured_cmd\<lparr>dump_filter := True,
        filter_ptr := Some (Persistent_filter (Type_filter ''/proc'' None) ''/tmp/c'')\<rparr>,
      [Lvm_type_filter_create True,
       Log_debug ''devices/filter not found in config file: no regex filter installed'' [],
       Persistent_filter_create ''/tmp/c'' True, Stat ''/tmp/c'' (Stat_ok 200),
       Persistent_filter_load True])"
  by (simp add: eval_defs configured_world_def configured_cmd_def
      example_cmd_def example_config_def)

theorem persistent_filter_load_rule_witness:
  "load_calls (snd (snd (init_filters configured_world configured_cmd))) = 1 \<and>
   cache_newer configured_world configured_cmd \<and>
   create_toolcontext example_build example_world [] None = (Some example_cmd, None, example_trace) \<and>
   load_calls example_trace = 0 \<and> \<not> cache_newer example_world example_cmd"
proof -
  have "\<not> cache_newer example_world example_cmd"
    by (simp add: cache_newer_def example_world_def)
  moreover have "cache_newer configured_world configured_cmd"
    by (simp add: cache_newer_def lvm_cache_path_def configured_world_def configured_cmd_def
        example_config_def cf_root_def find_config_str_dflt_def find_config_str_def
        find_config_node_def cf_timestamp_def config_file_timestamp_def)
  ultimately show ?thesis
    using persistent_filter_load_rule [of configured_world configured_cmd]
      persistent_filter_load_rule [of example_world example_cmd example_build "[]" None
        example_cmd None example_trace]
    by (simp add: create_example init_filters_configured)
qed
subsection \<open>The log file\<close>

lemma log_open_mode_overwrite:
  "DEFAULT_OVERWRITE b = 0 \<Longrightarrow>
     (log_open_mode b cmd = ''w'') =
     (\<exists>v vs. find_config_node (cf_root cmd) ''log/overwrite'' = Some (CFG_INT v # vs) \<and> v \<noteq> 0)"
  by (auto simp: log_open_mode_def find_config_int_def
      split: option.splits list.splits config_value.splits)

text \<open>
  C10. With \<open>log/file\<close> set, \<open>_init_logging\<close> opens that file, and no other, once: in mode
  \<open>"w"\<close> if \<open>log/overwrite\<close> (by default \<open>DEFAULT_OVERWRITE\<close>) is not zero and in mode \<open>"a"\<close>
  otherwise; where that default is zero, mode \<open>"w"\<close> means the key is set to a non-zero
  integer. \<open>_log\<close> becomes the opened file, or null if the open fails; a failed open is
  reported by \<open>log_error\<close> and \<open>init_log\<close> is not called. What \<open>fopen\<close> returns changes
  neither the context \<open>_init_logging\<close> leaves nor the context \<open>create_toolcontext\<close> returns.
\<close>

theorem init_logging_log_file:
  "(find_config_str (cf_root cmd) ''log/file'' None = Some log_file \<longrightarrow>
      Fopen log_file (log_open_mode b cmd) (fopen w log_file (log_open_mode b cmd))
        \<in> set (snd (snd (init_logging b w cmd gl))) \<and>
      (\<forall>f m r. Fopen f m r \<in> set (snd (snd (init_logging b w cmd gl))) \<longrightarrow>
         f = log_file \<and> m = log_open_mode b cmd) \<and>
      fst (snd (init_logging b w cmd gl)) =
        (if fopen w log_file (log_open_mode b cmd) then Some log_file else None) \<and>
      (\<not> fopen w log_file (log_open_mode b cmd) \<longrightarrow>
         Log_error ''Couldn't open log file %s'' [S log_file]
           \<in> set (snd (snd (init_logging b w cmd gl))) \<and>
         Init_log \<notin> set (snd (snd (init_logging b w cmd gl))))) \<and>
   log_open_mode b cmd =
     (if find_config_int (cf_root cmd) ''log/overwrite'' (DEFAULT_OVERWRITE b) \<noteq> 0
      then ''w'' else ''a'') \<and>
   (DEFAULT_OVERWRITE b = 0 \<longrightarrow>
      (log_open_mode b cmd = ''w'') =
      (\<exists>v vs. find_config_node (cf_root cmd) ''log/overwrite'' = Some (CFG_INT v # vs) \<and>
         v \<noteq> 0)) \<and>
   fst (init_logging b (w\<lparr>fopen := fo\<rparr>) cmd gl) = fst (init_logging b w cmd gl) \<and>
   fst (create_toolcontext b (w\<lparr>fopen := fo\<rparr>) a gl) = fst (create_toolcontext b w a gl)"
proof (intro conjI impI)
  assume "find_config_str (cf_root cmd) ''log/file'' None = Some log_file"
  then show "Fopen log_file (log_open_mode b cmd) (fopen w log_file (log_open_mode b cmd))
        \<in> set (snd (snd (init_logging b w cmd gl)))"
    "\<forall>f m r. Fopen f m r \<in> set (snd (snd (init_logging b w cmd gl))) \<longrightarrow>
         f = log_file \<and> m = log_open_mode b cmd"
    "fst (snd (init_logging b w cmd gl)) =
        (if fopen w log_file (log_open_mode b cmd) then Some log_file else None)"
    by (auto simp: init_logging_eq log_open_mode_def)
  assume "find_config_str (cf_root cmd) ''log/file'' None = Some log_file"
    "\<not> fopen w log_file (log_open_mode b cmd)"
  then show "Log_error ''Couldn't open log file %s'' [S log_file]
           \<in> set (snd (snd (init_logging b w cmd gl)))"
    "Init_log \<notin> set (snd (snd (init_logging b w cmd gl)))"
    by (auto simp: init_logging_eq log_open_mode_def)
next
  show "log_open_mode b cmd =
     (if find_config_int (cf_root cmd) ''log/overwrite'' (DEFAULT_OVERWRITE b) \<noteq> 0
      then ''w'' else ''a'')"
    by (simp add: log_open_mode_def)
  show "(log_open_mode b cmd = ''w'') =
      (\<exists>v vs. find_config_node (cf_root cmd) ''log/overwrite'' = Some (CFG_INT v # vs) \<and>
         v \<noteq> 0)" if "DEFAULT_OVERWRITE b = 0"
    using that by (rule log_open_mode_overwrite)
  show "fst (init_logging b (w\<lparr>fopen := fo\<rparr>) cmd gl) = fst (init_logging b w cmd gl)"
    by (simp add: init_logging_eq)
  show "fst (create_toolcontext b (w\<lparr>fopen := fo\<rparr>) a gl) = fst (create_toolcontext b w a gl)"
    by (rule create_toolcontext_result_cong) simp_all
qed

lemma log_file_configured:
  "find_config_str (cf_root configured_cmd) ''log/file'' None = Some ''/var/log/lvm2.log''"
  "log_open_mode example_build configured_cmd = ''w''"
  "log_open_mode example_build example_cmd = ''a''"
  "\<not> fopen no_log_world ''/var/log/lvm2.log'' ''w''"
  by (simp_all add: configured_cmd_def example_config_def cf_root_def find_config_str_def
      find_config_node_def log_open_mode_def find_config_int_def no_log_world_def
      configured_world_def example_world_def example_build_def example_cmd_def
      empty_config_tree_def)

theorem init_logging_log_file_witness:
  "find_config_str (cf_root configured_cmd) ''log/file'' None = Some ''/var/log/lvm2.log'' \<and>
   Fopen ''/var/log/lvm2.log'' ''w'' False
     \<in> set (snd (snd (init_logging example_build no_log_world configured_cmd None))) \<and>
   fst (snd (init_logging example_build no_log_world configured_cmd None)) = None \<and>
   Log_error ''Couldn't open log file %s'' [S ''/var/log/lvm2.log'']
     \<in> set (snd (snd (init_logging example_build no_log_world configured_cmd None))) \<and>
   fst (create_toolcontext example_build (example_world\<lparr>fopen := (\<lambda>f m. False)\<rparr>) [] None)
     = Some example_cmd"
  using init_logging_log_file [of configured_cmd "''/var/log/lvm2.log''" example_build
      no_log_world None]
    init_logging_log_file [of example_cmd _ example_build example_world None "\<lambda>f m. False" "[]"]
    log_file_configured
  by (simp add: create_example)
subsection \<open>An empty system directory\<close>

lemma get_env_vars_empty:
  assumes "getenv w ''LVM_SYSTEM_DIR'' = Some []"
  shows "get_env_vars w c = (True, c\<lparr>sys_dir := []\<rparr>, [])"
  using assms by (simp add: get_env_vars_def lvm_snprintf_def PATH_MAX_def)

lemma init_config_empty:
  assumes "sys_dir c = []"
  shows "init_config w c =
     (if create_config_tree w
      then (True, c\<lparr>cf := Some empty_config_tree\<rparr>, [Create_config_tree True])
      else (False, c\<lparr>cf := None\<rparr>, [Create_config_tree False, Stack]))"
  using assms by (simp add: init_config_def)

lemma init_filters_empty:
  assumes "sys_dir c = []"
  shows "\<not> dump_filter (fst (snd (init_filters w c)))"
  using assms by (cases w c rule: init_filters_cases) simp_all

lemma find_config_empty [simp]:
  "find_config_int (root empty_config_tree) path d = d"
  "find_config_str_dflt (root empty_config_tree) path s = s"
  "find_config_str (root empty_config_tree) path so = so"
  by (simp_all add: find_config_int_def find_config_str_dflt_def find_config_str_def
      find_config_node_def empty_config_tree_def)

lemma cf_root_empty: "cf c = Some empty_config_tree \<Longrightarrow> cf_root c = root empty_config_tree"
  by (simp add: cf_root_def)

lemma format_teardown_no_dump: "Persistent_filter_dump x \<notin> set (format_teardown b f)"
  by (cases "HAVE_LIBDL b"; cases "library f") (simp_all add: format_teardown_def)

lemma destroy_formats_no_dump: "Persistent_filter_dump x \<notin> set (destroy_formats b fs)"
  by (simp add: destroy_formats_concat format_teardown_no_dump)

text \<open>
  C4. With an empty system directory \<open>_init_config\<close> only creates the empty tree, calling
  neither \<open>stat\<close> nor \<open>read_config_file\<close>, and \<open>_init_filters\<close> leaves the dump flag off
  whatever \<open>devices/write_cache_state\<close> says. So when the environment sets the system
  directory to the empty string and a context is returned, its tree is the empty one, every
  setting has its built-in default, its dump flag is off, and \<open>destroy_toolcontext\<close> does
  not dump the persistent filter.
\<close>

theorem empty_sys_dir_disables_config_and_dump:
  "(sys_dir c = [] \<longrightarrow>
      init_config w c =
        (if create_config_tree w
         then (True, c\<lparr>cf := Some empty_config_tree\<rparr>, [Create_config_tree True])
         else (False, c\<lparr>cf := None\<rparr>, [Create_config_tree False, Stack])) \<and>
      \<not> dump_filter (fst (snd (init_filters w c)))) \<and>
   (getenv w ''LVM_SYSTEM_DIR'' = Some [] \<and>
    create_toolcontext b w a gl = (Some cmd, gl', tr) \<longrightarrow>
      sys_dir cmd = [] \<and> cf cmd = Some empty_config_tree \<and>
      \<not> dump_filter cmd \<and>
      (\<forall>f. Persistent_filter_dump f \<notin> set (destroy_toolcontext b cmd gl')) \<and>
      default_settings cmd =
        \<lparr>syslog = DEFAULT_SYSLOG b, debug = DEFAULT_LOGLEVEL b, verbose = DEFAULT_VERBOSE b,
         msg_prefix = DEFAULT_MSG_PREFIX b, cmd_name = DEFAULT_CMD_NAME b, test = 0,
         umask = DEFAULT_UMASK b, activation = DEFAULT_ACTIVATION b, suffix = DEFAULT_SUFFIX b,
         unit_factor = fst (units_to_bytes w (DEFAULT_UNITS b)),
         unit_type = snd (units_to_bytes w (DEFAULT_UNITS b)),
         fmt = fmt (default_settings cmd)\<rparr> \<and>
      current_settings cmd = default_settings cmd \<and>
      dev_dir cmd = DEFAULT_DEV_DIR b @ ''/'' \<and> proc_dir cmd = DEFAULT_PROC_DIR b)"
proof (rule conjI, goal_cases)
  case 1
  show ?case
    using init_config_empty [of c w] init_filters_empty [of c w] by simp
next
  case 2
  show ?case
  proof
    assume h: "getenv w ''LVM_SYSTEM_DIR'' = Some [] \<and>
      create_toolcontext b w a gl = (Some cmd, gl', tr)"
    then have "create_toolcontext b w a gl = (Some cmd, gl', tr)" ..
    then show "sys_dir cmd = [] \<and> cf cmd = Some empty_config_tree \<and>
      \<not> dump_filter cmd \<and>
      (\<forall>f. Persistent_filter_dump f \<notin> set (destroy_toolcontext b cmd gl')) \<and>
      default_settings cmd =
        \<lparr>syslog = DEFAULT_SYSLOG b, debug = DEFAULT_LOGLEVEL b, verbose = DEFAULT_VERBOSE b,
         msg_prefix = DEFAULT_MSG_PREFIX b, cmd_name = DEFAULT_CMD_NAME b, test = 0,
         umask = DEFAULT_UMASK b, activation = DEFAULT_ACTIVATION b, suffix = DEFAULT_SUFFIX b,
         unit_factor = fst (units_to_bytes w (DEFAULT_UNITS b)),
         unit_type = snd (units_to_bytes w (DEFAULT_UNITS b)),
         fmt = fmt (default_settings cmd)\<rparr> \<and>
      current_settings cmd = default_settings cmd \<and>
      dev_dir cmd = DEFAULT_DEV_DIR b @ ''/'' \<and> proc_dir cmd = DEFAULT_PROC_DIR b"
    proof (cases rule: create_toolcontext_success)
      case (success cmd1 tr1 cmd2 tr2 cmd3 tr3 cmd4 tr4 tr5 cmd6 tr6 cmd7 tr7)
      note fields = create_toolcontext_success_fields [OF success(1,2,3,4,6,7)]
      have s1: "sys_dir cmd1 = []"
        using get_env_vars_empty [of w "create_start_cmd b a"] h success(1) by auto
      have c2: "cf cmd2 = Some empty_config_tree"
        using init_config_empty [OF s1, of w] success(2) by (auto split: if_splits)
      have r2: "cf_root cmd2 = root empty_config_tree" "cf_root cmd3 = root empty_config_tree"
        using c2 fields(6) by (simp_all add: cf_root_empty)
      have d0: "default_settings cmd2 = zero_settings"
        using fields(13) by (simp add: create_start_cmd_def zero_cmd_def)
      have d3: "default_settings cmd3 = zero_settings
          \<lparr>syslog := DEFAULT_SYSLOG b, debug := DEFAULT_LOGLEVEL b, verbose := DEFAULT_VERBOSE b,
           msg_prefix := DEFAULT_MSG_PREFIX b, cmd_name := DEFAULT_CMD_NAME b, test := 0\<rparr>"
      proof -
        have "cmd3 = fst (init_logging b w cmd2 gl)"
          using success(3) by simp
        then show ?thesis
          by (simp add: init_logging_eq r2 d0)
      qed
      have p4: "default_settings cmd4 = (default_settings cmd3)
          \<lparr>umask := DEFAULT_UMASK b, activation := DEFAULT_ACTIVATION b,
           suffix := DEFAULT_SUFFIX b,
           unit_factor := fst (units_to_bytes w (DEFAULT_UNITS b)),
           unit_type := snd (units_to_bytes w (DEFAULT_UNITS b))\<rparr>"
        "dev_dir cmd4 = DEFAULT_DEV_DIR b @ ''/''" "proc_dir cmd4 = DEFAULT_PROC_DIR b"
      proof -
        have "cmd4 = fst (snd (process_config b w cmd3))" "fst (process_config b w cmd3)"
          using success(4) by simp_all
        then show "default_settings cmd4 = (default_settings cmd3)
          \<lparr>umask := DEFAULT_UMASK b, activation := DEFAULT_ACTIVATION b,
           suffix := DEFAULT_SUFFIX b,
           unit_factor := fst (units_to_bytes w (DEFAULT_UNITS b)),
           unit_type := snd (units_to_bytes w (DEFAULT_UNITS b))\<rparr>"
          "dev_dir cmd4 = DEFAULT_DEV_DIR b @ ''/''" "proc_dir cmd4 = DEFAULT_PROC_DIR b"
          by (simp_all add: process_config_eq' r2 split: if_splits)
      qed
      have d6: "\<not> dump_filter cmd6"
        using init_filters_empty [of cmd4 w] success(6) fields(2) s1 by simp
      have nodump: "\<forall>f. Persistent_filter_dump f \<notin> set (destroy_toolcontext b cmd gl')"
        using d6 fields(7) success(8)
        by (simp add: destroy_toolcontext_def Let_def destroy_formats_no_dump)
      show ?thesis
        using s1 c2 d3 p4 d6 nodump fields success(8)
        by (simp add: zero_settings_def)
    qed
  qed
qed
lemma create_empty_dir:
  "create_toolcontext example_build empty_dir_world [] None =
     (Some empty_dir_cmd, None, empty_dir_trace)"
  by (simp add: eval_defs empty_dir_world_def empty_dir_cmd_def empty_dir_trace_def
      example_cmd_def example_settings_def example_filter_def)

lemma empty_dir_facts:
  "getenv empty_dir_world ''LVM_SYSTEM_DIR'' = Some []"
  "sys_dir (empty_dir_cmd\<lparr>cf := Some example_config\<rparr>) = []"
  "find_config_int (cf_root (empty_dir_cmd\<lparr>cf := Some example_config\<rparr>))
     ''devices/write_cache_state'' 1 = 1"
  by (simp_all add: empty_dir_world_def example_world_def empty_dir_cmd_def cf_root_def
      example_config_def find_config_int_def find_config_node_def)

theorem empty_sys_dir_disables_config_and_dump_witness:
  "sys_dir (empty_dir_cmd\<lparr>cf := Some example_config\<rparr>) = [] \<and>
   find_config_int (cf_root (empty_dir_cmd\<lparr>cf := Some example_config\<rparr>))
     ''devices/write_cache_state'' 1 = 1 \<and>
   \<not> dump_filter (fst (snd (init_filters example_world
         (empty_dir_cmd\<lparr>cf := Some example_config\<rparr>)))) \<and>
   getenv empty_dir_world ''LVM_SYSTEM_DIR'' = Some [] \<and>
   create_toolcontext example_build empty_dir_world [] None =
     (Some empty_dir_cmd, None, empty_dir_trace) \<and>
   cf empty_dir_cmd = Some empty_config_tree \<and> \<not> dump_filter empty_dir_cmd \<and>
   Persistent_filter_dump (filter_ptr empty_dir_cmd)
     \<notin> set (destroy_toolcontext example_build empty_dir_cmd None)"
  using empty_sys_dir_disables_config_and_dump
      [of "empty_dir_cmd\<lparr>cf := Some example_config\<rparr>" example_world]
    empty_sys_dir_disables_config_and_dump
      [of _ empty_dir_world example_build "[]" None empty_dir_cmd None empty_dir_trace]
    empty_dir_facts create_empty_dir
  by simp

subsection \<open>The format list and the default format\<close>

lemma init_formats_success:
  assumes "init_formats b w c = (True, c', t)"
  shows "\<exists>txt dyn i. create_text_format w = Some txt \<and>
     formats c' = formats c
       @ (if LVM1_INTERNAL b
          then (case init_lvm1_format w of Some l1 \<Rightarrow> [l1\<lparr>library := None\<rparr>] | None \<Rightarrow> [])
          else [])
       @ dyn @ [txt\<lparr>library := None\<rparr>] \<and>
     (\<forall>f \<in> set dyn. library f \<noteq> None) \<and>
     fmt_backup c' = Some (length (formats c') - 1) \<and>
     fmt (default_settings c') = Some i \<and>
     init_formats_select (formats c')
       (find_config_str_dflt (cf_root c) ''global/format'' (DEFAULT_FORMAT b)) 0 = Some i"
proof -
  obtain ok1 c1 t1 where e1: "init_formats_lvm1 b w c = (ok1, c1, t1)"
    by (cases "init_formats_lvm1 b w c")
  obtain ok2 c2 t2 where e2: "init_formats_libdl b w c1 = (ok2, c2, t2)"
    by (cases "init_formats_libdl b w c1")
  note eq = init_formats_eq [OF e1 e2 refl]
  have ok: "ok1" "ok2"
    using assms eq by (auto split: if_splits)
  have f1: "formats c1 = formats c
       @ (if LVM1_INTERNAL b
          then (case init_lvm1_format w of Some l1 \<Rightarrow> [l1\<lparr>library := None\<rparr>] | None \<Rightarrow> [])
          else [])"
    using e1 ok by (auto simp: init_formats_lvm1_eq split: if_splits option.splits)
  obtain dyn where f2: "formats c2 = formats c1 @ dyn" "\<forall>f \<in> set dyn. library f \<noteq> None"
    using init_formats_libdl_formats [of b w c1] e2 by auto
  show ?thesis
    using assms ok f1 f2 unfolding eq
    by (auto split: option.splits)
qed

text \<open>
  C6. In every context \<open>create_toolcontext\<close> returns, the format list is the legacy format
  (if compiled in), then the formats loaded from libraries, each owning its library, then
  the text format, whose library handle is null; the text format is the last element and
  \<open>fmt_backup\<close> points to it.
\<close>

theorem text_format_last:
  "create_toolcontext b w a gl = (Some cmd, gl', tr) \<longrightarrow>
     (\<exists>txt dyn. create_text_format w = Some txt \<and>
        formats cmd =
          (if LVM1_INTERNAL b
           then (case init_lvm1_format w of Some l1 \<Rightarrow> [l1\<lparr>library := None\<rparr>] | None \<Rightarrow> [])
           else [])
          @ dyn @ [txt\<lparr>library := None\<rparr>] \<and>
        (\<forall>f \<in> set dyn. library f \<noteq> None) \<and>
        last (formats cmd) = txt\<lparr>library := None\<rparr> \<and>
        library (last (formats cmd)) = None \<and>
        fmt_backup cmd = Some (length (formats cmd) - 1))"
proof
  assume "create_toolcontext b w a gl = (Some cmd, gl', tr)"
  then show "\<exists>txt dyn. create_text_format w = Some txt \<and>
        formats cmd =
          (if LVM1_INTERNAL b
           then (case init_lvm1_format w of Some l1 \<Rightarrow> [l1\<lparr>library := None\<rparr>] | None \<Rightarrow> [])
           else [])
          @ dyn @ [txt\<lparr>library := None\<rparr>] \<and>
        (\<forall>f \<in> set dyn. library f \<noteq> None) \<and>
        last (formats cmd) = txt\<lparr>library := None\<rparr> \<and>
        library (last (formats cmd)) = None \<and>
        fmt_backup cmd = Some (length (formats cmd) - 1)"
  proof (cases rule: create_toolcontext_success)
    case (success cmd1 tr1 cmd2 tr2 cmd3 tr3 cmd4 tr4 tr5 cmd6 tr6 cmd7 tr7)
    note fields = create_toolcontext_success_fields [OF success(1,2,3,4,6,7)]
    have "formats (cmd6\<lparr>mem := True\<rparr>) = []"
      using fields(9) by (simp add: create_start_cmd_def)
    moreover obtain tf dyn where "create_text_format w = Some tf"
      "formats cmd7 = formats (cmd6\<lparr>mem := True\<rparr>)
       @ (if LVM1_INTERNAL b
          then (case init_lvm1_format w of Some l1 \<Rightarrow> [l1\<lparr>library := None\<rparr>] | None \<Rightarrow> [])
          else [])
       @ dyn @ [tf\<lparr>library := None\<rparr>]"
      "\<forall>f \<in> set dyn. library f \<noteq> None"
      "fmt_backup cmd7 = Some (length (formats cmd7) - 1)"
      using init_formats_success [OF success(7)] by blast
    ultimately show ?thesis
      using success(8) by auto
  qed
qed

theorem text_format_last_witness:
  "create_toolcontext example_build example_world [] None = (Some example_cmd, None, example_trace) \<and>
   formats example_cmd = [lvm1_format, text_format] \<and>
   last (formats example_cmd) = text_format \<and> library text_format = None \<and>
   fmt_backup example_cmd = Some 1"
  using text_format_last [of example_build example_world "[]" None example_cmd None example_trace]
  by (simp add: create_example example_cmd_def zero_cmd_def text_format_def)

text \<open>
  C5. The loop that resolves the default format returns the position of the first handler
  of the list whose name or alias equals the configured name up to the case of letters, and
  nothing if there is no such handler. \<open>_init_formats\<close> fails when the loop finds nothing
  in the list it has built; and in every context \<open>create_toolcontext\<close> returns, the default
  format is the first handler of the list that matches \<open>global/format\<close>.
\<close>

theorem default_format_first_match:
  "(init_formats_select fs format 0 = Some i \<longleftrightarrow>
      i < length fs \<and> format_matches (fs ! i) format \<and>
      (\<forall>j < i. \<not> format_matches (fs ! j) format)) \<and>
   (init_formats_select fs format 0 = None \<longleftrightarrow> (\<forall>f \<in> set fs. \<not> format_matches f format)) \<and>
   (init_formats b w c = (ok, c', t) \<and>
    init_formats_select (formats c')
      (find_config_str_dflt (cf_root c) ''global/format'' (DEFAULT_FORMAT b)) 0 = None
      \<longrightarrow> \<not> ok) \<and>
   (create_toolcontext b w a gl = (Some cmd, gl', tr) \<longrightarrow>
      (\<exists>k. fmt (default_settings cmd) = Some k \<and> fmt (current_settings cmd) = Some k \<and>
         init_formats_select (formats cmd)
           (find_config_str_dflt (cf_root cmd) ''global/format'' (DEFAULT_FORMAT b)) 0 = Some k))"
proof (intro conjI)
  show "init_formats_select fs format 0 = Some i \<longleftrightarrow>
      i < length fs \<and> format_matches (fs ! i) format \<and>
      (\<forall>j < i. \<not> format_matches (fs ! j) format)"
    by (simp add: init_formats_select_Some)
  show "init_formats_select fs format 0 = None \<longleftrightarrow> (\<forall>f \<in> set fs. \<not> format_matches f format)"
    by (rule init_formats_select_None)
  show "init_formats b w c = (ok, c', t) \<and>
    init_formats_select (formats c')
      (find_config_str_dflt (cf_root c) ''global/format'' (DEFAULT_FORMAT b)) 0 = None
      \<longrightarrow> \<not> ok"
    using init_formats_success [of b w c c' t] by auto
  show "create_toolcontext b w a gl = (Some cmd, gl', tr) \<longrightarrow>
      (\<exists>k. fmt (default_settings cmd) = Some k \<and> fmt (current_settings cmd) = Some k \<and>
         init_formats_select (formats cmd)
           (find_config_str_dflt (cf_root cmd) ''global/format'' (DEFAULT_FORMAT b)) 0 = Some k)"
  proof
    assume "create_toolcontext b w a gl = (Some cmd, gl', tr)"
    then show "\<exists>k. fmt (default_settings cmd) = Some k \<and> fmt (current_settings cmd) = Some k \<and>
         init_formats_select (formats cmd)
           (find_config_str_dflt (cf_root cmd) ''global/format'' (DEFAULT_FORMAT b)) 0 = Some k"
    proof (cases rule: create_toolcontext_success)
      case (success cmd1 tr1 cmd2 tr2 cmd3 tr3 cmd4 tr4 tr5 cmd6 tr6 cmd7 tr7)
      note fields = create_toolcontext_success_fields [OF success(1,2,3,4,6,7)]
      have "cf_root cmd = cf_root (cmd6\<lparr>mem := True\<rparr>)"
        using success(8) fields(4,14) by (simp add: cf_root_def)
      then show ?thesis
        using init_formats_success [OF success(7)] success(8) by auto
    qed
  qed
qed

lemma alias_formats_facts:
  "format_matches (alias_formats ! 1) ''TEXT''" "format_matches (alias_formats ! 2) ''TEXT''"
  "\<not> format_matches (alias_formats ! 0) ''TEXT''" "length alias_formats = 3"
  "\<forall>f \<in> set alias_formats. \<not> format_matches f ''doesnotexist''"
  by (simp_all add: alias_formats_def format_matches_def tolower_def)

theorem default_format_first_match_witness:
  "format_matches (alias_formats ! 1) ''TEXT'' \<and> format_matches (alias_formats ! 2) ''TEXT'' \<and>
   init_formats_select alias_formats ''TEXT'' 0 = Some 1 \<and>
   init_formats_select alias_formats ''doesnotexist'' 0 = None \<and>
   create_toolcontext example_build example_world [] None = (Some example_cmd, None, example_trace) \<and>
   fmt (default_settings example_cmd) = Some 1 \<and>
   init_formats_select (formats example_cmd) ''lvm2'' 0 = Some 1"
proof -
  note first = default_format_first_match [of alias_formats "''TEXT''" 1 example_build
      example_world zero_cmd False zero_cmd "[]" "[]" None example_cmd None example_trace]
  note none = default_format_first_match [of alias_formats "''doesnotexist''" 0 example_build
      example_world zero_cmd False zero_cmd "[]" "[]" None example_cmd None example_trace]
  have "\<forall>j<1. \<not> format_matches (alias_formats ! j) ''TEXT''"
    using alias_formats_facts(3) by simp
  then have a: "init_formats_select alias_formats ''TEXT'' 0 = Some 1"
    using first alias_formats_facts by simp
  have b: "init_formats_select alias_formats ''doesnotexist'' 0 = None"
    using none alias_formats_facts(5) by blast
  have c: "\<exists>k. fmt (default_settings example_cmd) = Some k \<and>
      init_formats_select (formats example_cmd)
        (find_config_str_dflt (cf_root example_cmd) ''global/format''
           (DEFAULT_FORMAT example_build)) 0 = Some k"
    using first create_example by blast
  have d: "find_config_str_dflt (cf_root example_cmd) ''global/format''
           (DEFAULT_FORMAT example_build) = ''lvm2''"
    by (simp add: example_cmd_def cf_root_def example_build_def)
  have e: "fmt (default_settings example_cmd) = Some 1"
    by (simp add: example_cmd_def example_settings_def)
  show ?thesis
    using a b c d e alias_formats_facts(1,2) create_example by auto
qed

end
